theory Spec2Isabelle
  imports Main "HOL-Library.Word" "HOL-Library.Mapping" "HOL-Library.AList_Mapping"
begin

section \<open>Go values\<close>

text \<open>
  The driver is written in Go. Its \<^verbatim>\<open>int\<close> is the 64-bit signed integer of the usual
  platforms and \<^verbatim>\<open>time.Duration\<close> is an \<^verbatim>\<open>int64\<close> count of nanoseconds; both are
  64-bit words here, read as two's complement (\<open>sint\<close>, \<open>\<le>s\<close>, \<open><s\<close>), so that
  \<open>+\<close> and \<open>*\<close> wrap around as Go's do. Strings and byte slices are lists of bytes.
\<close>

type_synonym go_int = "64 word"
type_synonym Duration = "64 word"
type_synonym bytes = string

text \<open>The kinds of package \<^verbatim>\<open>reflect\<close>, in the order of its constant block.\<close>

datatype Kind =
    reflect_Invalid | reflect_Bool
  | reflect_Int | reflect_Int8 | reflect_Int16 | reflect_Int32 | reflect_Int64
  | reflect_Uint | reflect_Uint8 | reflect_Uint16 | reflect_Uint32 | reflect_Uint64
  | reflect_Uintptr | reflect_Float32 | reflect_Float64
  | reflect_Complex64 | reflect_Complex128
  | reflect_Array | reflect_Chan | reflect_Func | reflect_Interface | reflect_Map
  | reflect_Pointer | reflect_Slice | reflect_String | reflect_Struct
  | reflect_UnsafePointer

text \<open>
  A value of type \<^verbatim>\<open>interface{}\<close>. The program looks at such a value in three ways only:
  it compares it with \<^verbatim>\<open>nil\<close>, it asks for the kind of its dynamic type, and it asserts
  that the dynamic type is exactly \<^verbatim>\<open>string\<close>. So a value is the nil interface, a
  \<^verbatim>\<open>string\<close>, or a value of another dynamic type, known by its kind (a named type whose
  underlying type is \<^verbatim>\<open>string\<close> is \<open>go_other reflect_String\<close>: its kind is String, but the
  assertion \<^verbatim>\<open>.(string)\<close> fails on it).
\<close>

datatype go_value = go_nil | go_string string | go_other Kind

fun Kind_of :: "go_value \<Rightarrow> Kind" where
  "Kind_of go_nil = reflect_Invalid"
| "Kind_of (go_string s) = reflect_String"
| "Kind_of (go_other k) = k"

text \<open>
  A Go map or slice variable may be \<^verbatim>\<open>nil\<close>, which the program tells apart from an empty
  collection: \<open>None\<close> is \<^verbatim>\<open>nil\<close>.
\<close>

type_synonym go_map = "(string, go_value) mapping option"

section \<open>Package errors\<close>

text \<open>
  \<^verbatim>\<open>NenDBError\<close> carries a message, a map of details and the time of its creation. The time
  is read from the wall clock and nothing in the program depends on it; it is left out.
  \<^verbatim>\<open>New\<close> replaces a nil map of details by an empty one.
\<close>

record NenDBError =
  Message :: string
  Details :: "(string, go_value) mapping"

definition New :: "string \<Rightarrow> go_map \<Rightarrow> NenDBError" where
  "New message details =
     \<lparr>Message = message, Details = (case details of None \<Rightarrow> Mapping.empty | Some d \<Rightarrow> d)\<rparr>"

text \<open>
  The values of type \<^verbatim>\<open>error\<close> that the program returns: the plain error made by
  \<^verbatim>\<open>fmt.Errorf\<close>, and the five classified errors, each a wrapper of its own type around a
  \<^verbatim>\<open>NenDBError\<close>.
\<close>

datatype go_error =
    Errorf string
  | NenDBConnectionError NenDBError
  | NenDBTimeoutError NenDBError
  | NenDBValidationError NenDBError
  | NenDBAlgorithmError NenDBError
  | NenDBResponseError NenDBError

definition NewConnectionError :: "string \<Rightarrow> go_map \<Rightarrow> go_error" where
  "NewConnectionError message details = NenDBConnectionError (New message details)"

definition NewTimeoutError :: "string \<Rightarrow> go_map \<Rightarrow> go_error" where
  "NewTimeoutError message details = NenDBTimeoutError (New message details)"

definition NewValidationError :: "string \<Rightarrow> go_map \<Rightarrow> go_error" where
  "NewValidationError message details = NenDBValidationError (New message details)"

definition NewAlgorithmError :: "string \<Rightarrow> go_map \<Rightarrow> go_error" where
  "NewAlgorithmError message details = NenDBAlgorithmError (New message details)"

definition NewResponseError :: "string \<Rightarrow> go_map \<Rightarrow> go_error" where
  "NewResponseError message details = NenDBResponseError (New message details)"

text \<open>The kind tag of the specification: which of the five wrappers an error is, if any.\<close>

datatype error_kind = ConnectionKind | TimeoutKind | ValidationKind | AlgorithmKind | ResponseKind

fun kind_of_error :: "go_error \<Rightarrow> error_kind option" where
  "kind_of_error (Errorf s) = None"
| "kind_of_error (NenDBConnectionError e) = Some ConnectionKind"
| "kind_of_error (NenDBTimeoutError e) = Some TimeoutKind"
| "kind_of_error (NenDBValidationError e) = Some ValidationKind"
| "kind_of_error (NenDBAlgorithmError e) = Some AlgorithmKind"
| "kind_of_error (NenDBResponseError e) = Some ResponseKind"

section \<open>Package types\<close>

text \<open>
  The constructors return \<^verbatim>\<open>(object, nil)\<close> or \<^verbatim>\<open>(nil, error)\<close>: \<open>Inr\<close> is the object,
  \<open>Inl\<close> the error with no object. \<^verbatim>\<open>Validate\<close> returns an error or \<^verbatim>\<open>nil\<close>: \<open>None\<close> is
  \<^verbatim>\<open>nil\<close>. The fields of \<^verbatim>\<open>GraphEdge\<close> and \<^verbatim>\<open>AlgorithmResult\<close> that share a name with a
  field of an earlier record carry the record's name in front.
\<close>

record GraphNode =
  ID :: go_int
  Labels :: "string list option"
  Properties :: go_map

definition NewGraphNode :: "go_int \<Rightarrow> string list option \<Rightarrow> go_map \<Rightarrow> go_error + GraphNode" where
  "NewGraphNode id' labels properties =
     (if id' <s 0 then Inl (Errorf ''node ID must be a non-negative integer'')
      else
        let labels = (if labels = None then Some [] else labels);
            properties = (if properties = None then Some Mapping.empty else properties)
        in Inr \<lparr>ID = id', Labels = labels, Properties = properties\<rparr>)"

definition GraphNode_Validate :: "GraphNode \<Rightarrow> go_error option" where
  "GraphNode_Validate n =
     (if ID n <s 0 then Some (Errorf ''node ID must be a non-negative integer'')
      else if Labels n = None then Some (Errorf ''labels cannot be nil'')
      else if Properties n = None then Some (Errorf ''properties cannot be nil'')
      else None)"

record GraphEdge =
  Edge_ID :: go_int
  Source :: go_int
  Target :: go_int
  Type :: string
  Edge_Properties :: go_map

definition NewGraphEdge ::
  "go_int \<Rightarrow> go_int \<Rightarrow> go_int \<Rightarrow> string \<Rightarrow> go_map \<Rightarrow> go_error + GraphEdge" where
  "NewGraphEdge id' source target edgeType properties =
     (if id' <s 0 then Inl (Errorf ''edge ID must be a non-negative integer'')
      else if source <s 0 then Inl (Errorf ''source node ID must be a non-negative integer'')
      else if target <s 0 then Inl (Errorf ''target node ID must be a non-negative integer'')
      else if edgeType = [] then Inl (Errorf ''edge type cannot be empty'')
      else
        let properties = (if properties = None then Some Mapping.empty else properties)
        in Inr \<lparr>Edge_ID = id', Source = source, Target = target, Type = edgeType,
                Edge_Properties = properties\<rparr>)"

definition GraphEdge_Validate :: "GraphEdge \<Rightarrow> go_error option" where
  "GraphEdge_Validate e =
     (if Edge_ID e <s 0 then Some (Errorf ''edge ID must be a non-negative integer'')
      else if Source e <s 0 then Some (Errorf ''source node ID must be a non-negative integer'')
      else if Target e <s 0 then Some (Errorf ''target node ID must be a non-negative integer'')
      else if Type e = [] then Some (Errorf ''edge type cannot be empty'')
      else if Edge_Properties e = None then Some (Errorf ''properties cannot be nil'')
      else None)"

text \<open>
  \<^verbatim>\<open>AlgorithmStatus\<close> is a string type with five named constants; any other string converts
  to it as well.
\<close>

type_synonym AlgorithmStatus = string

definition StatusQueued :: AlgorithmStatus where "StatusQueued = ''queued''"
definition StatusRunning :: AlgorithmStatus where "StatusRunning = ''running''"
definition StatusCompleted :: AlgorithmStatus where "StatusCompleted = ''completed''"
definition StatusFailed :: AlgorithmStatus where "StatusFailed = ''failed''"
definition StatusCancelled :: AlgorithmStatus where "StatusCancelled = ''cancelled''"

record AlgorithmResult =
  Algorithm :: string
  Status :: AlgorithmStatus
  Result_Message :: string
  Metadata :: go_map

definition NewAlgorithmResult ::
  "string \<Rightarrow> AlgorithmStatus \<Rightarrow> string \<Rightarrow> go_map \<Rightarrow> go_error + AlgorithmResult" where
  "NewAlgorithmResult algorithm status message metadata =
     (if algorithm = [] then Inl (Errorf ''algorithm name cannot be empty'')
      else if message = [] then Inl (Errorf ''message cannot be empty'')
      else
        let metadata = (if metadata = None then Some Mapping.empty else metadata)
        in Inr \<lparr>Algorithm = algorithm, Status = status, Result_Message = message,
                Metadata = metadata\<rparr>)"

definition AlgorithmResult_Validate :: "AlgorithmResult \<Rightarrow> go_error option" where
  "AlgorithmResult_Validate r =
     (if Algorithm r = [] then Some (Errorf ''algorithm name cannot be empty'')
      else if Result_Message r = [] then Some (Errorf ''message cannot be empty'')
      else if Metadata r = None then Some (Errorf ''metadata cannot be nil'')
      else None)"

text \<open>
  \<^verbatim>\<open>IsValidPropertyValue\<close> answers for \<^verbatim>\<open>nil\<close> before it asks for the kind
  (\<^verbatim>\<open>reflect.TypeOf(nil)\<close> has no kind to give).
\<close>

definition IsValidPropertyValue :: "go_value \<Rightarrow> bool" where
  "IsValidPropertyValue v =
     (if v = go_nil then True
      else (case Kind_of v of
              reflect_String \<Rightarrow> True
            | reflect_Int \<Rightarrow> True | reflect_Int8 \<Rightarrow> True | reflect_Int16 \<Rightarrow> True
            | reflect_Int32 \<Rightarrow> True | reflect_Int64 \<Rightarrow> True
            | reflect_Uint \<Rightarrow> True | reflect_Uint8 \<Rightarrow> True | reflect_Uint16 \<Rightarrow> True
            | reflect_Uint32 \<Rightarrow> True | reflect_Uint64 \<Rightarrow> True
            | reflect_Float32 \<Rightarrow> True | reflect_Float64 \<Rightarrow> True
            | reflect_Bool \<Rightarrow> True
            | _ \<Rightarrow> False))"

section \<open>What the program calls\<close>

text \<open>
  A context is known by the way it was made. \<open>WithCancel ctx True\<close> is a context whose cancel
  function has already been called when it is handed over. \<open>ctx_done\<close> says that the
  context is done from the moment it is handed over: it was cancelled, or it was given a
  timeout that is not positive, or its parent is so.
\<close>

datatype Context = Background | WithTimeout Context Duration | WithCancel Context bool

fun ctx_done :: "Context \<Rightarrow> bool" where
  "ctx_done Background = False"
| "ctx_done (WithTimeout parent d) = (ctx_done parent \<or> d \<le>s 0)"
| "ctx_done (WithCancel parent cancelled) = (ctx_done parent \<or> cancelled)"

text \<open>
  \<^verbatim>\<open>http.Client\<close>: the transport it sends with (\<open>None\<close> is the default transport) and its
  timeout, where zero means no timeout. A request and a response of package \<^verbatim>\<open>net/http\<close>
  with the fields the program sets or reads; \<open>Response_Body\<close> is what \<^verbatim>\<open>io.ReadAll\<close>
  makes of the body, an error (\<open>Inl\<close>) or the bytes.
\<close>

record http_Client =
  Transport :: "nat option"
  Client_Timeout :: Duration

record Request =
  Ctx :: Context
  Method :: string
  URL :: string
  Body :: "bytes option"
  Header :: "(string, string) mapping"

record Response =
  StatusCode :: go_int
  Response_Status :: string
  Response_Body :: "string + bytes"

text \<open>
  The library functions whose result the program cannot compute itself, and the network.
  An error of a library is known by its message, which is all the program takes from it.
  \<^item> \<open>url_Parse_query u params\<close>: \<^verbatim>\<open>url.Parse(u)\<close>, then the parameters set in the query
    and the address printed again; \<open>Inl\<close> when the address does not parse.
  \<^item> \<open>json_Marshal\<close>: the JSON text of a value, or an error.
  \<^item> \<open>NewRequest_error ctx method u\<close>: the error of \<^verbatim>\<open>http.NewRequestWithContext\<close>, if any.
  \<^item> \<open>Do hc req k\<close>: what \<^verbatim>\<open>hc.Do(req)\<close> returns when it is called for the \<open>k\<close>-th time
    within one call of the request primitive (counting from 0).
  \<^item> \<open>json_Unmarshal\<close>: a JSON text decoded into a \<^verbatim>\<open>map[string]interface{}\<close>; the JSON
    text \<^verbatim>\<open>null\<close> decodes without error and leaves the map nil.
  \<^item> \<open>fmt_v\<close>: how \<^verbatim>\<open>%v\<close> prints a map of details.

  Each of them is a function that answers. A call of \<^verbatim>\<open>Do\<close> or a read of a body that
  blocks for ever is not among these worlds, so that whether a call returns is said below
  only of calls whose attempts all come back, with an error or with a response.
\<close>

record world =
  url_Parse_query :: "string \<Rightarrow> (string, string) mapping \<Rightarrow> string + string"
  json_Marshal :: "go_value \<Rightarrow> string + bytes"
  NewRequest_error :: "Context \<Rightarrow> string \<Rightarrow> string \<Rightarrow> string option"
  Do :: "http_Client \<Rightarrow> Request \<Rightarrow> nat \<Rightarrow> string + Response"
  json_Unmarshal :: "bytes \<Rightarrow> string + go_map"
  fmt_v :: "(string, go_value) mapping \<Rightarrow> string"

text \<open>\<^verbatim>\<open>http.NewRequestWithContext\<close>: on success the request holds what it was given.\<close>

definition NewRequestWithContext ::
  "world \<Rightarrow> Context \<Rightarrow> string \<Rightarrow> string \<Rightarrow> bytes option \<Rightarrow> string + Request" where
  "NewRequestWithContext w ctx method u body =
     (case NewRequest_error w ctx method u of
        Some err \<Rightarrow> Inl err
      | None \<Rightarrow> Inr \<lparr>Ctx = ctx, Method = method, URL = u, Body = body, Header = Mapping.empty\<rparr>)"

text \<open>
  \<^verbatim>\<open>strings.TrimRight(s, cutset)\<close> removes from the end of \<open>s\<close> every byte that is in
  \<open>cutset\<close> (the program's cutset is the single ASCII byte \<^verbatim>\<open>/\<close>, which occurs in no
  longer UTF-8 sequence, so bytes and code points agree).
\<close>

definition TrimRight :: "string \<Rightarrow> string \<Rightarrow> string" where
  "TrimRight s cutset = rev (dropWhile (\<lambda>c. c \<in> set cutset) (rev s))"

text \<open>The verb \<^verbatim>\<open>%d\<close> of package \<^verbatim>\<open>fmt\<close>: a signed integer in decimal.\<close>

fun decimal :: "nat \<Rightarrow> string" where
  "decimal n =
     (if n < 10 then [''0123456789'' ! n]
      else decimal (n div 10) @ [''0123456789'' ! (n mod 10)])"

declare decimal.simps [simp del]

definition fmt_d :: "go_int \<Rightarrow> string" where
  "fmt_d i = (if i <s 0 then CHR ''-'' # decimal (nat (- sint i)) else decimal (nat (sint i)))"

text \<open>
  \<^verbatim>\<open>NenDBError.Error\<close>, the text of a classified error, and the text of any error of the
  program.
\<close>

definition NenDBError_Error :: "world \<Rightarrow> NenDBError \<Rightarrow> string" where
  "NenDBError_Error w e =
     (if \<not> Mapping.is_empty (Details e) then Message e @ '' - Details: '' @ fmt_v w (Details e)
      else Message e)"

fun Error :: "world \<Rightarrow> go_error \<Rightarrow> string" where
  "Error w (Errorf s) = s"
| "Error w (NenDBConnectionError e) = NenDBError_Error w e"
| "Error w (NenDBTimeoutError e) = NenDBError_Error w e"
| "Error w (NenDBValidationError e) = NenDBError_Error w e"
| "Error w (NenDBAlgorithmError e) = NenDBError_Error w e"
| "Error w (NenDBResponseError e) = NenDBError_Error w e"

section \<open>Package client\<close>

record ClientConfig =
  BaseURL :: string
  Timeout :: Duration
  MaxRetries :: go_int
  RetryDelay :: Duration
  SkipValidation :: bool
  HTTPClient :: "http_Client option"

definition Second :: Duration where
  "Second = 1000000000"

definition DefaultConfig :: ClientConfig where
  "DefaultConfig =
     \<lparr>BaseURL = ''http://localhost:8080'', Timeout = 30 * Second, MaxRetries = 3,
      RetryDelay = 1 * Second, SkipValidation = False, HTTPClient = None\<rparr>"

record NenDBClient =
  config :: ClientConfig
  httpClient :: http_Client
  baseURL :: string

text \<open>
  What a call does besides returning: it sleeps (\<^verbatim>\<open>time.Sleep\<close>, which takes a duration and
  nothing else) and it sends a request through the client. A call returns the list of these
  events in their order, and its result.
\<close>

datatype event = Sleep Duration | Attempt Request

fun is_Attempt :: "event \<Rightarrow> bool" where
  "is_Attempt (Attempt req) = True"
| "is_Attempt (Sleep d) = False"

definition attempts :: "event list \<Rightarrow> nat" where
  "attempts tr = length (filter is_Attempt tr)"

text \<open>
  Reading a map at a key gives the zero value \<^verbatim>\<open>nil\<close> when the key is missing or the map is
  nil.
\<close>

definition index :: "go_map \<Rightarrow> string \<Rightarrow> go_value" where
  "index m k =
     (case m of None \<Rightarrow> go_nil
      | Some f \<Rightarrow> (case Mapping.lookup f k of None \<Rightarrow> go_nil | Some v \<Rightarrow> v))"

text \<open>
  The body of the retry loop after the sleep, from the result of \<^verbatim>\<open>Do\<close> on: it returns from
  \<^verbatim>\<open>makeRequest\<close>, or it records an error and goes on with the next round.
\<close>

datatype step = Return "go_error + bytes" | Continue string

definition HTTP_message :: "Response \<Rightarrow> string" where
  "HTTP_message resp = ''HTTP '' @ fmt_d (StatusCode resp) @ '': '' @ Response_Status resp"

definition handle_attempt :: "world \<Rightarrow> string + Response \<Rightarrow> step" where
  "handle_attempt w r =
     (case r of
        Inl err \<Rightarrow> Continue err
      | Inr resp \<Rightarrow>
          (case Response_Body resp of
             Inl err \<Rightarrow> Continue err
           | Inr respBody \<Rightarrow>
               if 200 \<le>s StatusCode resp \<and> StatusCode resp <s 300 then Return (Inr respBody)
               else if 400 \<le>s StatusCode resp then
                 (case json_Unmarshal w respBody of
                    Inr errorResp \<Rightarrow>
                      Return (Inl (NewResponseError
                        (case index errorResp ''message'' of
                           go_string msg \<Rightarrow> msg
                         | _ \<Rightarrow> HTTP_message resp)
                        errorResp))
                  | Inl err \<Rightarrow> Return (Inl (NewResponseError (HTTP_message resp) None)))
               else Continue (''unexpected status code: '' @ fmt_d (StatusCode resp))))"

definition backoff :: "NenDBClient \<Rightarrow> go_int \<Rightarrow> event list \<Rightarrow> event list" where
  "backoff c attempt tr =
     (if 0 <s attempt then tr @ [Sleep (RetryDelay (config c) * attempt)] else tr)"

definition exhausted :: "string option \<Rightarrow> go_error" where
  "exhausted lastErr =
     (case lastErr of
        Some err \<Rightarrow>
          NewTimeoutError ''Request failed after all retries''
            (Some (Mapping.update ''error'' (go_string err) Mapping.empty))
      | None \<Rightarrow> NewTimeoutError ''Request failed after all retries'' None)"

text \<open>
  The retry loop, from the test of its condition on. The counter is a Go \<^verbatim>\<open>int\<close>: when
  \<open>MaxRetries\<close> is the largest one, the condition holds for every value of the counter and
  the loop ends only by a return from its body; a loop that does not end is \<open>None\<close>.
\<close>

partial_function (option) retry_loop ::
  "world \<Rightarrow> NenDBClient \<Rightarrow> Request \<Rightarrow> go_int \<Rightarrow> string option \<Rightarrow> event list
     \<Rightarrow> (event list \<times> (go_error + bytes)) option" where
  "retry_loop w c req attempt lastErr tr =
     (if attempt \<le>s MaxRetries (config c) then
        (case handle_attempt w
                (Do w (httpClient c) req (attempts (backoff c attempt tr))) of
           Return r \<Rightarrow> Some (backoff c attempt tr @ [Attempt req], r)
         | Continue err \<Rightarrow>
             retry_loop w c req (attempt + 1) (Some err) (backoff c attempt tr @ [Attempt req]))
      else Some (tr, Inl (exhausted lastErr)))"

text \<open>
  \<^verbatim>\<open>makeRequest\<close> up to the comment \<^verbatim>\<open>Perform request with retries\<close>: the address, the
  body and the request with its headers, or the validation error of the early return.
\<close>

definition build_request ::
  "world \<Rightarrow> NenDBClient \<Rightarrow> Context \<Rightarrow> string \<Rightarrow> string \<Rightarrow> go_value \<Rightarrow> (string, string) mapping
     \<Rightarrow> go_error + Request" where
  "build_request w c ctx method endpoint data params =
     (case (if \<not> Mapping.is_empty params then url_Parse_query w (baseURL c @ endpoint) params
            else Inr (baseURL c @ endpoint)) of
        Inl err \<Rightarrow>
          Inl (NewValidationError ''Invalid URL''
            (Some (Mapping.update ''url'' (go_string (baseURL c @ endpoint))
               (Mapping.update ''error'' (go_string err) Mapping.empty))))
      | Inr requestURL \<Rightarrow>
          (case (if data \<noteq> go_nil then map_sum id Some (json_Marshal w data) else Inr None) of
             Inl err \<Rightarrow>
               Inl (NewValidationError ''Failed to marshal request data''
                 (Some (Mapping.update ''error'' (go_string err) Mapping.empty)))
           | Inr body \<Rightarrow>
               (case NewRequestWithContext w ctx method requestURL body of
                  Inl err \<Rightarrow>
                    Inl (NewValidationError ''Failed to create request''
                      (Some (Mapping.update ''error'' (go_string err) Mapping.empty)))
                | Inr req \<Rightarrow>
                    Inr (req\<lparr>Header :=
                           Mapping.update ''User-Agent'' ''nendb-go-driver/0.1.0''
                             (if data \<noteq> go_nil
                              then Mapping.update ''Content-Type'' ''application/json''
                                     (Header req)
                              else Header req)\<rparr>))))"

definition makeRequest ::
  "world \<Rightarrow> NenDBClient \<Rightarrow> Context \<Rightarrow> string \<Rightarrow> string \<Rightarrow> go_value \<Rightarrow> (string, string) mapping
     \<Rightarrow> (event list \<times> (go_error + bytes)) option" where
  "makeRequest w c ctx method endpoint data params =
     (case build_request w c ctx method endpoint data params of
        Inl err \<Rightarrow> Some ([], Inl err)
      | Inr req \<Rightarrow> retry_loop w c req 0 None [])"

text \<open>\<^verbatim>\<open>Health\<close> returns an error or \<^verbatim>\<open>nil\<close> (\<open>None\<close>).\<close>

definition Health :: "world \<Rightarrow> NenDBClient \<Rightarrow> (event list \<times> go_error option) option" where
  "Health w c =
     (case makeRequest w c (WithTimeout Background (Timeout (config c))) ''GET'' ''/health''
             go_nil Mapping.empty of
        None \<Rightarrow> None
      | Some (tr, Inl err) \<Rightarrow> Some (tr, Some err)
      | Some (tr, Inr respBody) \<Rightarrow> Some (tr, None))"

text \<open>\<^verbatim>\<open>NewClient\<close> takes a pointer to a configuration, which may be nil (\<open>None\<close>).\<close>

definition new_client :: "ClientConfig \<Rightarrow> NenDBClient" where
  "new_client cfg =
     \<lparr>config = cfg,
      httpClient =
        (case HTTPClient cfg of
           Some hc \<Rightarrow> hc
         | None \<Rightarrow> \<lparr>Transport = None, Client_Timeout = Timeout cfg\<rparr>),
      baseURL = TrimRight (BaseURL cfg) ''/''\<rparr>"

definition NewClient ::
  "world \<Rightarrow> ClientConfig option \<Rightarrow> (event list \<times> (go_error + NenDBClient)) option" where
  "NewClient w config' =
     (let cfg = (case config' of None \<Rightarrow> DefaultConfig | Some cfg \<Rightarrow> cfg);
          client = new_client cfg
      in if \<not> SkipValidation cfg then
           (case Health w client of
              None \<Rightarrow> None
            | Some (tr, Some err) \<Rightarrow>
                Some (tr, Inl (NewConnectionError
                  (''Failed to connect to NenDB server at '' @ baseURL client)
                  (Some (Mapping.update ''error'' (go_string (Error w err)) Mapping.empty))))
            | Some (tr, None) \<Rightarrow> Some (tr, Inr client))
         else Some ([], Inr client))"

section \<open>The vocabulary of the properties\<close>

text \<open>
  An attempt fails at the transport level when \<^verbatim>\<open>Do\<close> returns an error or the body of the
  response cannot be read; \<open>transport_error\<close> is the message of that error.
\<close>

definition transport_failure :: "string + Response \<Rightarrow> bool" where
  "transport_failure r = (case r of Inl err \<Rightarrow> True | Inr resp \<Rightarrow> isl (Response_Body resp))"

definition transport_error :: "string + Response \<Rightarrow> string" where
  "transport_error r =
     (case r of
        Inl err \<Rightarrow> err
      | Inr resp \<Rightarrow> (case Response_Body resp of Inl err \<Rightarrow> err | Inr b \<Rightarrow> []))"

text \<open>
  The events of attempt number \<open>k\<close> of a call, as the specification has them: no wait before
  attempt 0, a sleep of \<open>RetryDelay * k\<close> before attempt \<open>k > 0\<close> (the product of two
  durations, in 64 bits), then the request. \<open>schedule c req i n\<close> is the events of the
  attempts \<open>i\<close> to \<open>n - 1\<close>.
\<close>

definition attempt_events :: "NenDBClient \<Rightarrow> Request \<Rightarrow> nat \<Rightarrow> event list" where
  "attempt_events c req k =
     (if k = 0 then [] else [Sleep (RetryDelay (config c) * of_nat k)]) @ [Attempt req]"

definition schedule :: "NenDBClient \<Rightarrow> Request \<Rightarrow> nat \<Rightarrow> nat \<Rightarrow> event list" where
  "schedule c req i n = concat (map (attempt_events c req) [i..<n])"

text \<open>
  The message of the error for a response with a status of 400 or more, in the words of the
  specification: the \<^verbatim>\<open>message\<close> field of the body when the body parses as a JSON object
  that has a string there, and otherwise \<^verbatim>\<open>HTTP <code>: <status text>\<close>.
\<close>

definition response_message :: "world \<Rightarrow> Response \<Rightarrow> bytes \<Rightarrow> string" where
  "response_message w resp respBody =
     (case json_Unmarshal w respBody of
        Inr (Some obj) \<Rightarrow>
          (case Mapping.lookup obj ''message'' of
             Some (go_string msg) \<Rightarrow> msg
           | _ \<Rightarrow> ''HTTP '' @ fmt_d (StatusCode resp) @ '': '' @ Response_Status resp)
      | _ \<Rightarrow> ''HTTP '' @ fmt_d (StatusCode resp) @ '': '' @ Response_Status resp)"

text \<open>The largest \<^verbatim>\<open>int\<close>.\<close>

definition MaxInt :: go_int where
  "MaxInt = 9223372036854775807"

text \<open>
  The request of the startup probe for a configuration: a \<^verbatim>\<open>GET\<close> of the path
  \<^verbatim>\<open>/health\<close> below the stored base address, without a body, under the background
  context with the configured timeout.
\<close>

definition probe_request :: "ClientConfig \<Rightarrow> Request" where
  "probe_request cfg =
     \<lparr>Ctx = WithTimeout Background (Timeout cfg), Method = ''GET'',
      URL = TrimRight (BaseURL cfg) ''/'' @ ''/health'', Body = None,
      Header = Mapping.update ''User-Agent'' ''nendb-go-driver/0.1.0'' Mapping.empty\<rparr>"

section \<open>Concrete servers and clients\<close>

text \<open>
  A world in which every library call succeeds and the server answers the \<open>k\<close>-th request
  of a call with \<open>answer k\<close>, whatever the request. Of JSON it knows the one error body of
  the specification; of \<^verbatim>\<open>%v\<close> it knows the map with the single key \<^verbatim>\<open>error\<close>.
\<close>

definition not_found_body :: bytes where
  "not_found_body =
     [CHR ''{'', CHR 0x22] @ ''message'' @ [CHR 0x22, CHR '':'', CHR 0x22] @ ''not found'' @
     [CHR 0x22, CHR ''}'']"

definition server :: "(nat \<Rightarrow> string + Response) \<Rightarrow> world" where
  "server answer =
     \<lparr>url_Parse_query = (\<lambda>u params. Inr u),
      json_Marshal = (\<lambda>v. Inr ''{}''),
      NewRequest_error = (\<lambda>ctx method u. None),
      Do = (\<lambda>hc req k. answer k),
      json_Unmarshal = (\<lambda>b.
        if b = not_found_body
        then Inr (Some (Mapping.update ''message'' (go_string ''not found'') Mapping.empty))
        else Inl ''invalid character''),
      fmt_v = (\<lambda>m.
        ''map['' @ (case Mapping.lookup m ''error'' of
                     Some (go_string s) \<Rightarrow> ''error:'' @ s
                   | _ \<Rightarrow> []) @ '']'')\<rparr>"

text \<open>No server at the address: every request is refused.\<close>

definition refusing :: world where
  "refusing = server (\<lambda>k. Inl ''connection refused'')"

text \<open>A server that answers every request with 404 and the error body.\<close>

definition not_found :: world where
  "not_found =
     server (\<lambda>k. Inr \<lparr>StatusCode = 404, Response_Status = ''404 Not Found'',
                        Response_Body = Inr not_found_body\<rparr>)"

text \<open>A server that answers the first request with 101 and every later one with 200.\<close>

definition switching :: world where
  "switching =
     server (\<lambda>k. if k = 0
                  then Inr \<lparr>StatusCode = 101, Response_Status = ''101 Switching Protocols'',
                            Response_Body = Inr []\<rparr>
                  else Inr \<lparr>StatusCode = 200, Response_Status = ''200 OK'',
                            Response_Body = Inr ''{}''\<rparr>)"

text \<open>
  A server that would answer 200, behind a client library that returns at once with the
  error of the context when the context of the request is done, as \<^verbatim>\<open>net/http\<close> does.
\<close>

definition cancellable :: world where
  "cancellable =
     (server (\<lambda>k. Inr \<lparr>StatusCode = 200, Response_Status = ''200 OK'',
                         Response_Body = Inr ''{}''\<rparr>))
     \<lparr>Do := (\<lambda>hc req k.
         if ctx_done (Ctx req) then Inl ''context canceled''
         else Inr \<lparr>StatusCode = 200, Response_Status = ''200 OK'',
                   Response_Body = Inr ''{}''\<rparr>)\<rparr>"

text \<open>A world in which no request can be made of the address.\<close>

definition malformed :: world where
  "malformed =
     (server (\<lambda>k. Inl ''connection refused''))
     \<lparr>NewRequest_error := (\<lambda>ctx method u. Some ''invalid URL escape'')\<rparr>"

text \<open>The configuration of the package's own test, with a number of retries to choose.\<close>

definition test_config :: "go_int \<Rightarrow> ClientConfig" where
  "test_config n =
     \<lparr>BaseURL = ''http://localhost:9999'', Timeout = Second, MaxRetries = n,
      RetryDelay = Second, SkipValidation = False, HTTPClient = None\<rparr>"

text \<open>
  The third configuration of the package's own test, which sets the address and skips the
  validation and leaves every other field zero.
\<close>

definition zero_config :: ClientConfig where
  "zero_config =
     \<lparr>BaseURL = ''http://localhost:9999'', Timeout = 0, MaxRetries = 0, RetryDelay = 0,
      SkipValidation = True, HTTPClient = None\<rparr>"

text \<open>
  The configuration that the command line makes for \<^verbatim>\<open>-retries 1 -skip-health\<close>: it sets
  no retry delay.
\<close>

definition cli_config :: ClientConfig where
  "cli_config =
     \<lparr>BaseURL = ''http://localhost:9999'', Timeout = 30 * Second, MaxRetries = 1,
      RetryDelay = 0, SkipValidation = True, HTTPClient = None\<rparr>"

text \<open>The request that \<^verbatim>\<open>makeRequest\<close> builds for \<^verbatim>\<open>GET /nodes/1\<close> on that client.\<close>

definition get_node_1 :: "Context \<Rightarrow> Request" where
  "get_node_1 ctx =
     \<lparr>Ctx = ctx, Method = ''GET'', URL = ''http://localhost:9999/nodes/1'', Body = None,
      Header = Mapping.update ''User-Agent'' ''nendb-go-driver/0.1.0'' Mapping.empty\<rparr>"

text \<open>The request of the health probe on that client.\<close>

definition health_request :: Request where
  "health_request =
     \<lparr>Ctx = WithTimeout Background Second, Method = ''GET'',
      URL = ''http://localhost:9999/health'', Body = None,
      Header = Mapping.update ''User-Agent'' ''nendb-go-driver/0.1.0'' Mapping.empty\<rparr>"

text \<open>The configuration of the package's test of the base address.\<close>

definition slash_config :: ClientConfig where
  "slash_config =
     \<lparr>BaseURL = ''http://localhost:8080/'', Timeout = 0, MaxRetries = 0, RetryDelay = 0,
      SkipValidation = True, HTTPClient = None\<rparr>"

text \<open>
  The specification asks that a pending sleep ends promptly when the context is done: in a
  call under a context that is done from the start, no sleep of a positive duration is
  begun.
\<close>

definition sleeps_abort :: "Context \<Rightarrow> event list \<Rightarrow> bool" where
  "sleeps_abort ctx tr =
     (if ctx_done ctx
      then list_all (\<lambda>ev. case ev of Sleep d \<Rightarrow> \<not> 0 <s d | Attempt req \<Rightarrow> True) tr
      else True)"

section \<open>Properties of package types\<close>

lemmas signed_order = word_sle_eq word_sless_alt

text \<open>
  C8. \<^verbatim>\<open>IsValidPropertyValue\<close> is true for \<^verbatim>\<open>nil\<close> and for every value whose kind is string,
  one of the signed integer kinds, one of the unsigned integer kinds, one of the two float
  kinds, or bool; it is false for every slice, map, struct and function value.
\<close>

theorem IsValidPropertyValue_kinds:
  "IsValidPropertyValue go_nil \<and>
   (Kind_of v \<in> {reflect_String, reflect_Int, reflect_Int8, reflect_Int16, reflect_Int32,
       reflect_Int64, reflect_Uint, reflect_Uint8, reflect_Uint16, reflect_Uint32,
       reflect_Uint64, reflect_Float32, reflect_Float64, reflect_Bool}
      \<longrightarrow> IsValidPropertyValue v) \<and>
   (Kind_of v' \<in> {reflect_Slice, reflect_Map, reflect_Struct, reflect_Func}
      \<longrightarrow> \<not> IsValidPropertyValue v')"
  by (cases v; cases v') (auto simp: IsValidPropertyValue_def)

theorem IsValidPropertyValue_kinds_witness:
  "IsValidPropertyValue (go_string ''string'') \<and> \<not> IsValidPropertyValue (go_other reflect_Slice)"
  using IsValidPropertyValue_kinds [of "go_string ''string''" "go_other reflect_Slice"]
  by simp

text \<open>
  C4, as stated: a negative identifier or an empty required string makes the constructor
  return a validation-kind classified error. It does not: the error for the node identifier
  \<open>-1\<close> of the package's own test is the plain error of \<^verbatim>\<open>fmt.Errorf\<close>, which is none of
  the classified errors.
\<close>

theorem constructor_error_counterexample:
  "NewGraphNode (- 1) (Some [''Person''])
       (Some (Mapping.update ''name'' (go_string ''Alice'') Mapping.empty))
     = Inl (Errorf ''node ID must be a non-negative integer'') \<and>
   kind_of_error (Errorf ''node ID must be a non-negative integer'') \<noteq> Some ValidationKind"
  by (simp add: NewGraphNode_def signed_order)

text \<open>
  C4, amended: for a negative node, edge, source or target identifier, an empty edge type,
  an empty algorithm name or an empty message, the constructor returns no object and a plain
  error with a fixed message, made by \<^verbatim>\<open>fmt.Errorf\<close>; such an error has no kind.
\<close>

theorem constructor_error_plain:
  "(nodeID <s 0 \<longrightarrow>
      NewGraphNode nodeID labels properties = Inl (Errorf ''node ID must be a non-negative integer'')) \<and>
   (edgeID <s 0 \<or> source <s 0 \<or> target <s 0 \<or> edgeType = [] \<longrightarrow>
      NewGraphEdge edgeID source target edgeType properties' \<in>
        {Inl (Errorf ''edge ID must be a non-negative integer''),
         Inl (Errorf ''source node ID must be a non-negative integer''),
         Inl (Errorf ''target node ID must be a non-negative integer''),
         Inl (Errorf ''edge type cannot be empty'')}) \<and>
   (algorithm = [] \<or> message = [] \<longrightarrow>
      NewAlgorithmResult algorithm status message metadata \<in>
        {Inl (Errorf ''algorithm name cannot be empty''),
         Inl (Errorf ''message cannot be empty'')}) \<and>
   kind_of_error (Errorf msg) = None"
  by (simp add: NewGraphNode_def NewGraphEdge_def NewAlgorithmResult_def)

theorem constructor_error_plain_witness:
  "NewGraphNode (- 1) None None = Inl (Errorf ''node ID must be a non-negative integer'') \<and>
   NewGraphEdge 1 1 (- 1) ''KNOWS'' None \<in>
        {Inl (Errorf ''edge ID must be a non-negative integer''),
         Inl (Errorf ''source node ID must be a non-negative integer''),
         Inl (Errorf ''target node ID must be a non-negative integer''),
         Inl (Errorf ''edge type cannot be empty'')} \<and>
   NewAlgorithmResult ''BFS'' StatusCompleted [] None \<in>
        {Inl (Errorf ''algorithm name cannot be empty''),
         Inl (Errorf ''message cannot be empty'')}"
  using constructor_error_plain [where nodeID = "- 1" and labels = None and properties = None
      and edgeID = 1 and source = 1 and target = "- 1" and edgeType = "''KNOWS''"
      and properties' = None and algorithm = "''BFS''" and message = "[]"
      and status = StatusCompleted and metadata = None]
  by (simp only: signed_order) simp

lemma NewGraphNode_succeeds: "\<not> isl (NewGraphNode i l p) \<longleftrightarrow> \<not> i <s 0"
  by (simp add: NewGraphNode_def Let_def)

lemma NewGraphNode_value:
  "NewGraphNode i l p = Inr n \<Longrightarrow>
     n = \<lparr>ID = i, Labels = Some (case l of None \<Rightarrow> [] | Some ls \<Rightarrow> ls),
          Properties = Some (case p of None \<Rightarrow> Mapping.empty | Some m \<Rightarrow> m)\<rparr>"
  by (auto simp: NewGraphNode_def Let_def split: if_splits option.splits)

lemma GraphNode_Validate_accepts:
  "GraphNode_Validate n = None \<longleftrightarrow> \<not> ID n <s 0 \<and> Labels n \<noteq> None \<and> Properties n \<noteq> None"
  by (simp add: GraphNode_Validate_def)

lemma NewGraphEdge_succeeds:
  "\<not> isl (NewGraphEdge i s t ty p) \<longleftrightarrow> \<not> i <s 0 \<and> \<not> s <s 0 \<and> \<not> t <s 0 \<and> ty \<noteq> []"
  by (simp add: NewGraphEdge_def Let_def)

lemma NewGraphEdge_value:
  "NewGraphEdge i s t ty p = Inr e \<Longrightarrow>
     e = \<lparr>Edge_ID = i, Source = s, Target = t, Type = ty,
          Edge_Properties = Some (case p of None \<Rightarrow> Mapping.empty | Some m \<Rightarrow> m)\<rparr>"
  by (auto simp: NewGraphEdge_def Let_def split: if_splits option.splits)

lemma GraphEdge_Validate_accepts:
  "GraphEdge_Validate e = None \<longleftrightarrow>
     \<not> Edge_ID e <s 0 \<and> \<not> Source e <s 0 \<and> \<not> Target e <s 0 \<and> Type e \<noteq> [] \<and>
     Edge_Properties e \<noteq> None"
  by (simp add: GraphEdge_Validate_def)

lemma NewAlgorithmResult_succeeds:
  "\<not> isl (NewAlgorithmResult a st m md) \<longleftrightarrow> a \<noteq> [] \<and> m \<noteq> []"
  by (simp add: NewAlgorithmResult_def Let_def)

lemma NewAlgorithmResult_value:
  "NewAlgorithmResult a st m md = Inr r \<Longrightarrow>
     r = \<lparr>Algorithm = a, Status = st, Result_Message = m,
          Metadata = Some (case md of None \<Rightarrow> Mapping.empty | Some x \<Rightarrow> x)\<rparr>"
  by (auto simp: NewAlgorithmResult_def Let_def split: if_splits option.splits)

lemma AlgorithmResult_Validate_accepts:
  "AlgorithmResult_Validate r = None \<longleftrightarrow>
     Algorithm r \<noteq> [] \<and> Result_Message r \<noteq> [] \<and> Metadata r \<noteq> None"
  by (simp add: AlgorithmResult_Validate_def)

text \<open>
  C5, as stated: the constructor succeeds exactly when \<^verbatim>\<open>Validate\<close> accepts the value with
  the same fields, and both take a nil list or map for an empty one. \<^verbatim>\<open>Validate\<close> does not:
  the constructor accepts the identifier 1 with nil labels and nil properties, and
  \<^verbatim>\<open>Validate\<close> rejects the node with these three fields.
\<close>

theorem validation_counterexample:
  "\<not> isl (NewGraphNode 1 None None) \<and>
   GraphNode_Validate \<lparr>ID = 1, Labels = None, Properties = None\<rparr>
     = Some (Errorf ''labels cannot be nil'')"
  by (simp add: NewGraphNode_def GraphNode_Validate_def signed_order)

text \<open>
  C5, amended: the constructor puts an empty collection in the place of a nil label list,
  property map or metadata map and then succeeds exactly when \<^verbatim>\<open>Validate\<close> accepts the
  value so completed, which is the value it returns; \<^verbatim>\<open>Validate\<close> itself accepts a value
  exactly when the identifiers are not negative, the required strings are not empty and no
  list or map is nil, so that it rejects the nil collection the constructor would have
  replaced. This holds for \<^verbatim>\<open>GraphNode\<close>, \<^verbatim>\<open>GraphEdge\<close> and \<^verbatim>\<open>AlgorithmResult\<close>.
\<close>

theorem constructor_validate:
  "(\<not> isl (NewGraphNode nodeID labels properties) \<longleftrightarrow>
      GraphNode_Validate \<lparr>ID = nodeID,
         Labels = Some (case labels of None \<Rightarrow> [] | Some ls \<Rightarrow> ls),
         Properties = Some (case properties of None \<Rightarrow> Mapping.empty | Some m \<Rightarrow> m)\<rparr> = None) \<and>
   (NewGraphNode nodeID labels properties = Inr n \<longrightarrow>
      n = \<lparr>ID = nodeID,
         Labels = Some (case labels of None \<Rightarrow> [] | Some ls \<Rightarrow> ls),
         Properties = Some (case properties of None \<Rightarrow> Mapping.empty | Some m \<Rightarrow> m)\<rparr>) \<and>
   (GraphNode_Validate n' = None \<longleftrightarrow>
      \<not> ID n' <s 0 \<and> Labels n' \<noteq> None \<and> Properties n' \<noteq> None) \<and>
   (\<not> isl (NewGraphEdge edgeID source target edgeType properties') \<longleftrightarrow>
      GraphEdge_Validate \<lparr>Edge_ID = edgeID, Source = source, Target = target, Type = edgeType,
         Edge_Properties = Some (case properties' of None \<Rightarrow> Mapping.empty | Some m \<Rightarrow> m)\<rparr>
        = None) \<and>
   (NewGraphEdge edgeID source target edgeType properties' = Inr e \<longrightarrow>
      e = \<lparr>Edge_ID = edgeID, Source = source, Target = target, Type = edgeType,
         Edge_Properties = Some (case properties' of None \<Rightarrow> Mapping.empty | Some m \<Rightarrow> m)\<rparr>) \<and>
   (GraphEdge_Validate e' = None \<longleftrightarrow>
      \<not> Edge_ID e' <s 0 \<and> \<not> Source e' <s 0 \<and> \<not> Target e' <s 0 \<and> Type e' \<noteq> [] \<and>
      Edge_Properties e' \<noteq> None) \<and>
   (\<not> isl (NewAlgorithmResult algorithm status message metadata) \<longleftrightarrow>
      AlgorithmResult_Validate \<lparr>Algorithm = algorithm, Status = status,
         Result_Message = message,
         Metadata = Some (case metadata of None \<Rightarrow> Mapping.empty | Some m \<Rightarrow> m)\<rparr> = None) \<and>
   (NewAlgorithmResult algorithm status message metadata = Inr r \<longrightarrow>
      r = \<lparr>Algorithm = algorithm, Status = status, Result_Message = message,
         Metadata = Some (case metadata of None \<Rightarrow> Mapping.empty | Some m \<Rightarrow> m)\<rparr>) \<and>
   (AlgorithmResult_Validate r' = None \<longleftrightarrow>
      Algorithm r' \<noteq> [] \<and> Result_Message r' \<noteq> [] \<and> Metadata r' \<noteq> None)"
  using NewGraphNode_value [of nodeID labels properties n]
    NewGraphEdge_value [of edgeID source target edgeType properties' e]
    NewAlgorithmResult_value [of algorithm status message metadata r]
  by (simp add: NewGraphNode_succeeds GraphNode_Validate_accepts NewGraphEdge_succeeds
      GraphEdge_Validate_accepts NewAlgorithmResult_succeeds AlgorithmResult_Validate_accepts)

theorem constructor_validate_witness:
  "\<not> isl (NewGraphNode 1 None None) \<and>
   NewGraphNode 1 None None = Inr \<lparr>ID = 1, Labels = Some [], Properties = Some Mapping.empty\<rparr> \<and>
   GraphNode_Validate \<lparr>ID = 1, Labels = Some [], Properties = Some Mapping.empty\<rparr> = None \<and>
   GraphNode_Validate \<lparr>ID = 1, Labels = None, Properties = None\<rparr> \<noteq> None \<and>
   NewGraphEdge 1 1 2 ''KNOWS'' None =
     Inr \<lparr>Edge_ID = 1, Source = 1, Target = 2, Type = ''KNOWS'',
          Edge_Properties = Some Mapping.empty\<rparr> \<and>
   GraphEdge_Validate \<lparr>Edge_ID = 1, Source = 1, Target = 2, Type = ''KNOWS'',
          Edge_Properties = Some Mapping.empty\<rparr> = None \<and>
   GraphEdge_Validate \<lparr>Edge_ID = 1, Source = 1, Target = 2, Type = ''KNOWS'',
          Edge_Properties = None\<rparr> \<noteq> None \<and>
   NewAlgorithmResult ''BFS'' StatusCompleted ''BFS completed'' None =
     Inr \<lparr>Algorithm = ''BFS'', Status = StatusCompleted, Result_Message = ''BFS completed'',
          Metadata = Some Mapping.empty\<rparr> \<and>
   AlgorithmResult_Validate \<lparr>Algorithm = ''BFS'', Status = StatusCompleted,
          Result_Message = ''BFS completed'', Metadata = Some Mapping.empty\<rparr> = None \<and>
   AlgorithmResult_Validate \<lparr>Algorithm = ''BFS'', Status = StatusCompleted,
          Result_Message = ''BFS completed'', Metadata = None\<rparr> \<noteq> None"
proof -
  have n: "NewGraphNode 1 None None =
      Inr \<lparr>ID = 1, Labels = Some [], Properties = Some Mapping.empty\<rparr>"
    by (simp add: NewGraphNode_def signed_order)
  have e: "NewGraphEdge 1 1 2 ''KNOWS'' None =
     Inr \<lparr>Edge_ID = 1, Source = 1, Target = 2, Type = ''KNOWS'',
          Edge_Properties = Some Mapping.empty\<rparr>"
    by (simp add: NewGraphEdge_def signed_order)
  have r: "NewAlgorithmResult ''BFS'' StatusCompleted ''BFS completed'' None =
     Inr \<lparr>Algorithm = ''BFS'', Status = StatusCompleted, Result_Message = ''BFS completed'',
          Metadata = Some Mapping.empty\<rparr>"
    by (simp add: NewAlgorithmResult_def)
  show ?thesis
    using n e r
      constructor_validate [where nodeID = 1 and labels = None and properties = None
        and n' = "\<lparr>ID = 1, Labels = None, Properties = None\<rparr>"
        and n = "\<lparr>ID = 1, Labels = Some [], Properties = Some Mapping.empty\<rparr>"
        and edgeID = 1 and source = 1 and target = 2 and edgeType = "''KNOWS''"
        and properties' = None
        and e = "\<lparr>Edge_ID = 1, Source = 1, Target = 2, Type = ''KNOWS'',
          Edge_Properties = Some Mapping.empty\<rparr>"
        and e' = "\<lparr>Edge_ID = 1, Source = 1, Target = 2, Type = ''KNOWS'',
          Edge_Properties = None\<rparr>"
        and algorithm = "''BFS''" and status = StatusCompleted
        and message = "''BFS completed''" and metadata = None
        and r = "\<lparr>Algorithm = ''BFS'', Status = StatusCompleted,
          Result_Message = ''BFS completed'', Metadata = Some Mapping.empty\<rparr>"
        and r' = "\<lparr>Algorithm = ''BFS'', Status = StatusCompleted,
          Result_Message = ''BFS completed'', Metadata = None\<rparr>"]
    by simp
qed

section \<open>The retry loop\<close>

text \<open>
  The counter of the loop is the word of a natural number below \<open>2 ^ 63\<close> as long as it has
  not wrapped around, and the events of a round are then those of the specification.
\<close>

lemma sint_of_nat_64: "n < 2 ^ 63 \<Longrightarrow> sint (of_nat n :: 64 word) = int n"
  by (simp add: signed_of_nat signed_take_bit_int_eq_self)

lemma sint_MaxInt: "sint MaxInt = 2 ^ 63 - 1"
  by (simp add: MaxInt_def)

lemma sint_less_MaxInt: "x \<noteq> MaxInt \<Longrightarrow> sint (x :: go_int) < 2 ^ 63 - 1"
proof -
  assume "x \<noteq> MaxInt"
  then have "sint x \<noteq> sint MaxInt" by (metis signed_word_eqI)
  moreover have "sint x < 2 ^ 63" using sint_lt [of x] by simp
  ultimately show ?thesis by (simp add: sint_MaxInt)
qed

lemma attempts_append [simp]: "attempts (xs @ ys) = attempts xs + attempts ys"
  by (simp add: attempts_def)

lemma attempts_simps [simp]:
  "attempts [] = 0" "attempts (Attempt req # tr) = Suc (attempts tr)"
  "attempts (Sleep d # tr) = attempts tr"
  by (simp_all add: attempts_def)

lemma attempts_backoff [simp]: "attempts (backoff c a tr) = attempts tr"
  by (simp add: backoff_def)

lemma attempts_attempt_events [simp]: "attempts (attempt_events c req k) = 1"
  by (simp add: attempt_events_def)

lemma schedule_Suc: "i \<le> n \<Longrightarrow> schedule c req i (Suc n) = schedule c req i n @ attempt_events c req n"
  by (simp add: schedule_def)

lemma schedule_first: "i < n \<Longrightarrow> schedule c req i n = attempt_events c req i @ schedule c req (Suc i) n"
  by (simp add: schedule_def upt_conv_Cons)

lemma schedule_empty [simp]: "schedule c req i i = []"
  by (simp add: schedule_def)

lemma attempts_schedule [simp]: "attempts (schedule c req i n) = n - i"
  by (induction n) (auto simp: schedule_Suc schedule_def not_less_eq_eq)

lemma backoff_attempt_events:
  "n < 2 ^ 63 \<Longrightarrow> backoff c (of_nat n) tr @ [Attempt req] = tr @ attempt_events c req n"
  by (cases "n = 0") (simp_all add: backoff_def attempt_events_def word_sless_alt sint_of_nat_64)


lemma loop_returns:
  assumes cont: "\<And>j. i \<le> j \<Longrightarrow> j < k \<Longrightarrow> \<exists>e. handle_attempt w (Do w (httpClient c) req j) = Continue e"
    and ret: "handle_attempt w (Do w (httpClient c) req k) = Return r"
    and bound: "int k \<le> sint (MaxRetries (config c))"
    and start: "i \<le> k" "attempts tr = i"
  shows "retry_loop w c req (of_nat i) lastErr tr = Some (tr @ schedule c req i (Suc k), r)"
  using cont start
proof (induction "k - i" arbitrary: i tr lastErr)
  case 0
  then have ik: "i = k" by simp
  have small: "k < 2 ^ 63"
    using bound sint_lt [of "MaxRetries (config c)"] by simp
  then have cond: "(of_nat k :: go_int) \<le>s MaxRetries (config c)"
    using bound by (simp add: word_sle_eq sint_of_nat_64)
  have "retry_loop w c req (of_nat k) lastErr tr = Some (backoff c (of_nat k) tr @ [Attempt req], r)"
    using cond ret "0.prems"(3) ik by (subst retry_loop.simps) simp
  then show ?case
    using small ik by (simp add: backoff_attempt_events schedule_def)
next
  case (Suc d)
  then have ik: "i < k" by simp
  have small: "i < 2 ^ 63"
    using bound ik sint_lt [of "MaxRetries (config c)"] by simp
  then have cond: "(of_nat i :: go_int) \<le>s MaxRetries (config c)"
    using bound ik by (simp add: word_sle_eq sint_of_nat_64)
  obtain e where e: "handle_attempt w (Do w (httpClient c) req i) = Continue e"
    using Suc.prems(1) [of i] ik by auto
  let ?tr = "backoff c (of_nat i) tr @ [Attempt req]"
  have step: "retry_loop w c req (of_nat i) lastErr tr = retry_loop w c req (of_nat (Suc i)) (Some e) ?tr"
    using cond e Suc.prems(3) by (subst retry_loop.simps) (simp add: add.commute)
  have "retry_loop w c req (of_nat (Suc i)) (Some e) ?tr = Some (?tr @ schedule c req (Suc i) (Suc k), r)"
  proof (rule Suc.hyps(1))
    show "d = k - Suc i" using Suc.hyps(2) by simp
    show "Suc i \<le> k" using ik by simp
    show "attempts ?tr = Suc i" using Suc.prems(3) by simp
    show "\<exists>e. handle_attempt w (Do w (httpClient c) req j) = Continue e" if "Suc i \<le> j" "j < k" for j
      using Suc.prems(1) [of j] that by simp
  qed
  then show ?case
    using step small ik by (simp add: backoff_attempt_events schedule_first [of i "Suc k"])
qed

lemma loop_not_entered:
  "\<not> attempt \<le>s MaxRetries (config c) \<Longrightarrow>
     retry_loop w c req attempt lastErr tr = Some (tr, Inl (exhausted lastErr))"
  by (subst retry_loop.simps) simp

lemma loop_exhausts:
  assumes cont: "\<And>j. i \<le> j \<Longrightarrow> int j \<le> sint (MaxRetries (config c)) \<Longrightarrow>
               handle_attempt w (Do w (httpClient c) req j) = Continue (e j)"
    and bound: "sint (MaxRetries (config c)) < 2 ^ 63 - 1"
    and start: "int i \<le> sint (MaxRetries (config c)) + 1" "attempts tr = i"
  shows "retry_loop w c req (of_nat i) lastErr tr =
           Some (tr @ schedule c req i (nat (sint (MaxRetries (config c)) + 1)),
                 Inl (exhausted (if int i \<le> sint (MaxRetries (config c))
                                 then Some (e (nat (sint (MaxRetries (config c))))) else lastErr)))"
  using cont start
proof (induction "nat (sint (MaxRetries (config c)) + 1) - i" arbitrary: i tr lastErr)
  case 0
  then have i: "int i = sint (MaxRetries (config c)) + 1" by simp
  then have small: "i < 2 ^ 63" using bound by simp
  have "\<not> (of_nat i :: go_int) \<le>s MaxRetries (config c)"
    using i small by (simp add: word_sle_eq sint_of_nat_64)
  moreover have "nat (sint (MaxRetries (config c)) + 1) = i" using i by simp
  ultimately show ?case
    using i by (simp add: loop_not_entered)
next
  case (Suc d)
  then have i: "int i \<le> sint (MaxRetries (config c))" by simp
  then have small: "i < 2 ^ 63" using sint_lt [of "MaxRetries (config c)"] by simp
  then have cond: "(of_nat i :: go_int) \<le>s MaxRetries (config c)"
    using i by (simp add: word_sle_eq sint_of_nat_64)
  let ?tr = "backoff c (of_nat i) tr @ [Attempt req]"
  have e: "handle_attempt w (Do w (httpClient c) req i) = Continue (e i)"
    using Suc.prems(1) [of i] i by simp
  have step: "retry_loop w c req (of_nat i) lastErr tr = retry_loop w c req (of_nat (Suc i)) (Some (e i)) ?tr"
    using cond e Suc.prems(3) by (subst retry_loop.simps) (simp add: add.commute)
  have "retry_loop w c req (of_nat (Suc i)) (Some (e i)) ?tr =
          Some (?tr @ schedule c req (Suc i) (nat (sint (MaxRetries (config c)) + 1)),
                Inl (exhausted (if int (Suc i) \<le> sint (MaxRetries (config c))
                                then Some (e (nat (sint (MaxRetries (config c))))) else Some (e i))))"
  proof (rule Suc.hyps(1))
    show "d = nat (sint (MaxRetries (config c)) + 1) - Suc i" using Suc.hyps(2) by simp
    show "int (Suc i) \<le> sint (MaxRetries (config c)) + 1" using i by simp
    show "attempts ?tr = Suc i" using Suc.prems(3) by simp
    show "handle_attempt w (Do w (httpClient c) req j) = Continue (e j)"
      if "Suc i \<le> j" "int j \<le> sint (MaxRetries (config c))" for j
      using Suc.prems(1) [of j] that by simp
  qed
  moreover have "i < nat (sint (MaxRetries (config c)) + 1)" using i by simp
  moreover have "\<not> int (Suc i) \<le> sint (MaxRetries (config c)) \<Longrightarrow> i = nat (sint (MaxRetries (config c)))"
    using i by simp
  ultimately show ?case
    using step small i by (auto simp: backoff_attempt_events schedule_first)
qed

lemma loop_trace:
  assumes "retry_loop w c req attempt lastErr tr = Some y"
  shows "attempt = of_nat i \<Longrightarrow> i < 2 ^ 63 \<Longrightarrow> sint (MaxRetries (config c)) < 2 ^ 63 - 1 \<Longrightarrow>
         attempts tr = i \<Longrightarrow>
         \<exists>n. i \<le> n \<and> int n \<le> max (int i) (sint (MaxRetries (config c)) + 1) \<and>
             fst y = tr @ schedule c req i n"
  using assms
proof (induction arbitrary: i rule: retry_loop.raw_induct [rotated 1, consumes 1, case_names step])
  case (step f w c req attempt lastErr tr y)
  show ?case
  proof (cases "attempt \<le>s MaxRetries (config c)")
    case False
    with step.hyps have "fst y = tr @ schedule c req i i" by auto
    then show ?thesis by (intro exI [of _ i]) simp
  next
    case True
    then have i: "int i \<le> sint (MaxRetries (config c))"
      using step.prems(1,2) by (simp add: word_sle_eq sint_of_nat_64)
    let ?tr = "backoff c attempt tr @ [Attempt req]"
    have tr: "?tr = tr @ attempt_events c req i"
      using step.prems(1,2) by (simp add: backoff_attempt_events)
    show ?thesis
    proof (cases "handle_attempt w (Do w (httpClient c) req (attempts (backoff c attempt tr)))")
      case (Return r)
      with True step.hyps have "fst y = ?tr" by auto
      then have "fst y = tr @ schedule c req i (Suc i)" using tr by (simp add: schedule_def)
      then show ?thesis using i by (intro exI [of _ "Suc i"]) simp
    next
      case (Continue e)
      with True step.hyps have rec: "f w c req (attempt + 1) (Some e) ?tr = Some y"
        by simp
      have "\<exists>n. Suc i \<le> n \<and> int n \<le> max (int (Suc i)) (sint (MaxRetries (config c)) + 1) \<and>
               fst y = ?tr @ schedule c req (Suc i) n"
      proof (rule step.IH [OF rec])
        show "attempt + 1 = of_nat (Suc i)" using step.prems(1) by simp
        show "Suc i < 2 ^ 63" using i step.prems(3) by simp
        show "sint (MaxRetries (config c)) < 2 ^ 63 - 1" by fact
        show "attempts ?tr = Suc i" using step.prems(4) by simp
      qed
      then obtain n where n: "Suc i \<le> n"
        "int n \<le> max (int (Suc i)) (sint (MaxRetries (config c)) + 1)"
        "fst y = ?tr @ schedule c req (Suc i) n" by blast
      have "fst y = tr @ schedule c req i n"
        using n(1,3) tr by (simp add: schedule_first [of i n])
      moreover have "int n \<le> max (int i) (sint (MaxRetries (config c)) + 1)" using n(2) i by simp
      ultimately show ?thesis using n(1) by (intro exI [of _ n]) simp
    qed
  qed
qed

lemma loop_forever:
  assumes "retry_loop w c req attempt lastErr tr = Some y"
  shows "MaxRetries (config c) = MaxInt \<Longrightarrow>
         (\<And>k. \<exists>e. handle_attempt w (Do w (httpClient c) req k) = Continue e) \<Longrightarrow> False"
  using assms
proof (induction rule: retry_loop.raw_induct [rotated 1, consumes 1, case_names step])
  case (step f w c req attempt lastErr tr y)
  have "sint attempt \<le> 2 ^ 63 - 1" using sint_lt [of attempt] by simp
  then have cond: "attempt \<le>s MaxRetries (config c)"
    using step.prems(1) by (simp add: word_sle_eq sint_MaxInt)
  obtain e where "handle_attempt w (Do w (httpClient c) req (attempts (backoff c attempt tr))) = Continue e"
    using step.prems(2) by blast
  with cond step.hyps have "f w c req (attempt + 1) (Some e) (backoff c attempt tr @ [Attempt req]) = Some y"
    by simp
  then show ?case using step.IH step.prems by blast
qed

lemma loop_never_returns:
  "MaxRetries (config c) = MaxInt \<Longrightarrow>
   (\<And>k. \<exists>e. handle_attempt w (Do w (httpClient c) req k) = Continue e) \<Longrightarrow>
   retry_loop w c req attempt lastErr tr = None"
  using loop_forever [of w c req attempt lastErr tr] by (cases "retry_loop w c req attempt lastErr tr") auto

lemma loop_events:
  assumes "retry_loop w c req attempt lastErr tr = Some y"
  shows "ev \<in> set (fst y) \<Longrightarrow>
         ev \<in> set tr \<or> ev = Attempt req \<or> (\<exists>n. ev = Sleep (RetryDelay (config c) * n))"
  using assms
proof (induction rule: retry_loop.raw_induct [rotated 1, consumes 1, case_names step])
  case (step f w c req attempt lastErr tr y)
  show ?case
  proof (cases "attempt \<le>s MaxRetries (config c)")
    case False
    with step.hyps step.prems show ?thesis by auto
  next
    case True
    show ?thesis
    proof (cases "handle_attempt w (Do w (httpClient c) req (attempts (backoff c attempt tr)))")
      case (Return r)
      with True step.hyps step.prems show ?thesis
        by (auto simp: backoff_def split: if_splits)
    next
      case (Continue e)
      with True step.hyps have "f w c req (attempt + 1) (Some e) (backoff c attempt tr @ [Attempt req]) = Some y"
        by simp
      from step.IH [OF this step.prems] show ?thesis
        by (auto simp: backoff_def split: if_splits)
    qed
  qed
qed

lemma transport_failure_continues:
  "transport_failure r \<Longrightarrow> handle_attempt w r = Continue (transport_error r)"
  by (auto simp: transport_failure_def transport_error_def handle_attempt_def
      split: sum.splits)

lemma build_request_fields:
  "build_request w c ctx method endpoint data params = Inr req \<Longrightarrow>
     Ctx req = ctx \<and> Method req = method \<and>
     (Mapping.is_empty params \<longrightarrow> URL req = baseURL c @ endpoint)"
  by (auto simp: build_request_def NewRequestWithContext_def split: sum.splits option.splits if_splits)

lemma makeRequest_trace:
  assumes "makeRequest w c ctx method endpoint data params = Some (tr, r)"
    and "MaxRetries (config c) \<noteq> MaxInt"
  shows "int (attempts tr) \<le> max 0 (sint (MaxRetries (config c)) + 1)"
    and "build_request w c ctx method endpoint data params = Inr req \<Longrightarrow>
           tr = schedule c req 0 (attempts tr)"
    and "isl (build_request w c ctx method endpoint data params) \<Longrightarrow> tr = []"
proof -
  show "isl (build_request w c ctx method endpoint data params) \<Longrightarrow> tr = []"
    using assms(1) by (auto simp: makeRequest_def split: sum.splits)
  have loop: "\<exists>n. int n \<le> max 0 (sint (MaxRetries (config c)) + 1) \<and> tr = schedule c req' 0 n"
    if "build_request w c ctx method endpoint data params = Inr req'" for req'
  proof -
    from that assms(1) have "retry_loop w c req' 0 None [] = Some (tr, r)"
      by (simp add: makeRequest_def)
    from loop_trace [OF this, of 0] sint_less_MaxInt [OF assms(2)] show ?thesis by auto
  qed
  show "build_request w c ctx method endpoint data params = Inr req \<Longrightarrow>
           tr = schedule c req 0 (attempts tr)"
    using loop [of req] by auto
  show "int (attempts tr) \<le> max 0 (sint (MaxRetries (config c)) + 1)"
  proof (cases "build_request w c ctx method endpoint data params")
    case (Inl e)
    with assms(1) show ?thesis by (simp add: makeRequest_def)
  next
    case (Inr req')
    from loop [OF this] show ?thesis by auto
  qed
qed

lemma schedule_sleeps:
  assumes "0 <s n" and "n \<noteq> MaxInt"
  shows "Sleep (RetryDelay (config c)) \<in> set (schedule c req 0 (nat (sint n + 1)))"
proof -
  from assms(1) have "1 < nat (sint n + 1)" by (simp add: word_sless_alt)
  then have "1 \<in> set [0..<nat (sint n + 1)]" by simp
  moreover have "Sleep (RetryDelay (config c)) \<in> set (attempt_events c req 1)"
    by (simp add: attempt_events_def)
  ultimately show ?thesis unfolding schedule_def set_concat set_map by blast
qed

section \<open>Properties of package client\<close>

lemmas world_eval = server_def refusing_def not_found_def switching_def cancellable_def
  test_config_def zero_config_def slash_config_def cli_config_def new_client_def
  get_node_1_def
  health_request_def not_found_body_def

lemmas call_eval = makeRequest_def build_request_def NewRequestWithContext_def
  handle_attempt_def backoff_def exhausted_def TrimRight_def Second_def

lemma build_get_node_1:
  "build_request (server answer) (new_client (test_config n)) ctx ''GET'' ''/nodes/1'' go_nil
     Mapping.empty = Inr (get_node_1 ctx)"
  by (simp add: world_eval call_eval)

lemma refusing_fails: "transport_failure (Do refusing hc req k)"
  by (simp add: refusing_def server_def transport_failure_def)

lemma run_refusing_for_ever:
  "makeRequest refusing (new_client (test_config MaxInt)) ctx ''GET'' ''/nodes/1'' go_nil
     Mapping.empty = None"
  unfolding makeRequest_def refusing_def build_get_node_1
  using transport_failure_continues [OF refusing_fails]
  by (simp add: loop_never_returns new_client_def test_config_def refusing_def)

lemma all_fail_run:
  assumes "build_request w c ctx method endpoint data params = Inr req"
    and "\<And>k. transport_failure (Do w (httpClient c) req k)"
    and "MaxRetries (config c) \<noteq> MaxInt"
  shows "makeRequest w c ctx method endpoint data params =
           Some (schedule c req 0 (nat (sint (MaxRetries (config c)) + 1)),
                 Inl (NewTimeoutError ''Request failed after all retries''
                   (if 0 \<le>s MaxRetries (config c)
                    then Some (Mapping.update ''error''
                           (go_string (transport_error
                              (Do w (httpClient c) req (nat (sint (MaxRetries (config c)))))))
                           Mapping.empty)
                    else None))) \<and>
         int (attempts (schedule c req 0 (nat (sint (MaxRetries (config c)) + 1)))) =
           max 0 (sint (MaxRetries (config c)) + 1) \<and>
         kind_of_error (NewTimeoutError ''Request failed after all retries''
                   (if 0 \<le>s MaxRetries (config c)
                    then Some (Mapping.update ''error''
                           (go_string (transport_error
                              (Do w (httpClient c) req (nat (sint (MaxRetries (config c)))))))
                           Mapping.empty)
                    else None)) = Some TimeoutKind"
proof (cases "0 \<le>s MaxRetries (config c)")
  case True
  then have nonneg: "0 \<le> sint (MaxRetries (config c))" by (simp add: word_sle_eq)
  have "retry_loop w c req (of_nat 0) None [] =
          Some ([] @ schedule c req 0 (nat (sint (MaxRetries (config c)) + 1)),
            Inl (exhausted (if int 0 \<le> sint (MaxRetries (config c))
               then Some (transport_error (Do w (httpClient c) req (nat (sint (MaxRetries (config c))))))
               else None)))"
    by (rule loop_exhausts [where e = "\<lambda>j. transport_error (Do w (httpClient c) req j)"])
       (use assms nonneg sint_less_MaxInt in \<open>simp_all add: transport_failure_continues\<close>)
  with True nonneg assms(1) show ?thesis
    by (simp add: makeRequest_def exhausted_def NewTimeoutError_def)
next
  case False
  then have "sint (MaxRetries (config c)) < 0" by (simp add: word_sle_eq)
  moreover have "retry_loop w c req 0 None [] = Some ([], Inl (exhausted None))"
    using False by (simp add: loop_not_entered)
  ultimately show ?thesis
    using False assms(1) by (simp add: makeRequest_def exhausted_def NewTimeoutError_def)
qed

text \<open>
  C1, as stated: with \<open>MaxRetries = N\<close> and a server that never answers, \<^verbatim>\<open>makeRequest\<close>
  makes exactly \<open>N + 1\<close> attempts and returns a timeout error. With \<open>N = -2\<close> the loop is
  not entered: the call makes no attempt, and \<open>N + 1\<close> is \<open>-1\<close>. With the largest \<open>N\<close> the
  condition of the loop never fails and the call does not return.
\<close>

theorem exhaustion_counterexample:
  "makeRequest refusing (new_client (test_config (- 2))) Background ''GET'' ''/nodes/1'' go_nil
       Mapping.empty
     = Some ([], Inl (NewTimeoutError ''Request failed after all retries'' None)) \<and>
   int (attempts []) \<noteq> sint (- 2 :: go_int) + 1 \<and>
   makeRequest refusing (new_client (test_config MaxInt)) Background ''GET'' ''/nodes/1'' go_nil
       Mapping.empty
     = None"
proof -
  have "makeRequest refusing (new_client (test_config (- 2))) Background ''GET''
      ''/nodes/1'' go_nil Mapping.empty
     = Some ([], Inl (NewTimeoutError ''Request failed after all retries'' None))"
    unfolding makeRequest_def refusing_def build_get_node_1
    by (simp add: loop_not_entered new_client_def test_config_def exhausted_def signed_order)
  then show ?thesis using run_refusing_for_ever by simp
qed

text \<open>
  C1, amended: when the request could be built, every attempt fails at the transport level
  and \<open>MaxRetries = N\<close> is not the largest \<^verbatim>\<open>int\<close>, \<^verbatim>\<open>makeRequest\<close> makes exactly
  \<open>N + 1\<close> attempts, or none when \<open>N\<close> is negative, with the sleeps of the schedule between
  them, and returns no bytes and a timeout error; the error carries the message of the last
  transport error under the key \<^verbatim>\<open>error\<close>, or no detail when there was no attempt.
\<close>

theorem exhaustion:
  assumes "build_request w c ctx method endpoint data params = Inr req"
    and "\<And>k. transport_failure (Do w (httpClient c) req k)"
    and "MaxRetries (config c) \<noteq> MaxInt"
  shows "makeRequest w c ctx method endpoint data params =
           Some (schedule c req 0 (nat (sint (MaxRetries (config c)) + 1)),
                 Inl (NewTimeoutError ''Request failed after all retries''
                   (if 0 \<le>s MaxRetries (config c)
                    then Some (Mapping.update ''error''
                           (go_string (transport_error
                              (Do w (httpClient c) req (nat (sint (MaxRetries (config c)))))))
                           Mapping.empty)
                    else None))) \<and>
         int (attempts (schedule c req 0 (nat (sint (MaxRetries (config c)) + 1)))) =
           max 0 (sint (MaxRetries (config c)) + 1) \<and>
         kind_of_error (NewTimeoutError ''Request failed after all retries''
                   (if 0 \<le>s MaxRetries (config c)
                    then Some (Mapping.update ''error''
                           (go_string (transport_error
                              (Do w (httpClient c) req (nat (sint (MaxRetries (config c)))))))
                           Mapping.empty)
                    else None)) = Some TimeoutKind"
  using assms by (rule all_fail_run)

theorem exhaustion_witness:
  "makeRequest refusing (new_client (test_config 2)) Background ''GET'' ''/nodes/1'' go_nil
       Mapping.empty
     = Some ([Attempt (get_node_1 Background), Sleep 1000000000,
              Attempt (get_node_1 Background), Sleep 2000000000,
              Attempt (get_node_1 Background)],
             Inl (NewTimeoutError ''Request failed after all retries''
               (Some (Mapping.update ''error'' (go_string ''connection refused'')
                  Mapping.empty))))"
proof -
  have b: "build_request refusing (new_client (test_config 2)) Background ''GET'' ''/nodes/1''
      go_nil Mapping.empty = Inr (get_node_1 Background)"
    unfolding refusing_def by (rule build_get_node_1)
  have m: "MaxRetries (config (new_client (test_config 2))) \<noteq> MaxInt"
    by (simp add: new_client_def test_config_def MaxInt_def)
  have s: "schedule (new_client (test_config 2)) (get_node_1 Background) 0 3 =
      [Attempt (get_node_1 Background), Sleep 1000000000,
       Attempt (get_node_1 Background), Sleep 2000000000, Attempt (get_node_1 Background)]"
    by (simp add: schedule_def attempt_events_def upt_rec new_client_def test_config_def Second_def)
  show ?thesis
    using exhaustion [OF b refusing_fails m] s
    by (simp add: new_client_def test_config_def signed_order refusing_def server_def
        transport_error_def)
qed


lemma error_response:
  assumes "Response_Body resp = Inr respBody" "400 \<le>s StatusCode resp"
  shows "handle_attempt w (Inr resp) =
           Return (Inl (NewResponseError (response_message w resp respBody)
             (case json_Unmarshal w respBody of Inl err \<Rightarrow> None | Inr m \<Rightarrow> m)))"
proof -
  have "\<not> StatusCode resp <s 300"
    using assms(2) by (simp add: signed_order)
  then show ?thesis
    using assms
    by (auto simp: handle_attempt_def response_message_def HTTP_message_def index_def
        split: sum.splits option.splits go_value.splits)
qed

lemma success_response:
  "Response_Body resp = Inr respBody \<Longrightarrow> 200 \<le>s StatusCode resp \<Longrightarrow> StatusCode resp <s 300 \<Longrightarrow>
     handle_attempt w (Inr resp) = Return (Inr respBody)"
  by (simp add: handle_attempt_def)

lemma continue_iff:
  "(\<exists>e. handle_attempt w r = Continue e) \<longleftrightarrow>
     transport_failure r \<or>
     (\<exists>resp. r = Inr resp \<and>
        (StatusCode resp <s 200 \<or> 300 \<le>s StatusCode resp \<and> StatusCode resp <s 400))"
proof (cases r)
  case (Inl err)
  then show ?thesis by (simp add: handle_attempt_def transport_failure_def)
next
  case (Inr resp)
  show ?thesis
  proof (cases "Response_Body resp")
    case (Inl err)
    with Inr show ?thesis by (simp add: handle_attempt_def transport_failure_def)
  next
    case body: (Inr respBody)
    have "(\<exists>e. handle_attempt w (Inr resp) = Continue e) \<longleftrightarrow>
            \<not> (200 \<le>s StatusCode resp \<and> StatusCode resp <s 300) \<and> \<not> 400 \<le>s StatusCode resp"
      using body by (auto simp: handle_attempt_def split: sum.splits)
    also have "\<dots> \<longleftrightarrow> StatusCode resp <s 200 \<or> 300 \<le>s StatusCode resp \<and> StatusCode resp <s 400"
      by (auto simp: signed_order)
    finally show ?thesis using Inr body by (simp add: transport_failure_def)
  qed
qed

text \<open>
  C2, as stated: only transport failures and 3xx statuses lead to another attempt. A status
  of 101 is neither, and the call goes on to a second attempt after it.
\<close>

theorem retried_status_counterexample:
  "makeRequest switching (new_client (test_config 1)) Background ''GET'' ''/nodes/1'' go_nil
       Mapping.empty
     = Some ([Attempt (get_node_1 Background), Sleep 1000000000,
              Attempt (get_node_1 Background)], Inr ''{}'') \<and>
   Do switching (httpClient (new_client (test_config 1))) (get_node_1 Background) 0
     = Inr \<lparr>StatusCode = 101, Response_Status = ''101 Switching Protocols'',
            Response_Body = Inr []\<rparr> \<and>
   \<not> (300 \<le>s (101 :: go_int) \<and> (101 :: go_int) <s 400)"
  unfolding makeRequest_def switching_def build_get_node_1
  by (simp add: server_def new_client_def test_config_def retry_loop.simps handle_attempt_def
      backoff_def signed_order Second_def)

text \<open>
  C2, amended: when the attempts before attempt \<open>k\<close> were all followed by another one and
  attempt \<open>k\<close> is within the budget and yields a response whose body can be read, then a
  status of 400 or more makes \<^verbatim>\<open>makeRequest\<close> return at once, after \<open>k + 1\<close> attempts,
  with a response error whose message is \<open>response_message\<close> and whose details are the
  decoded body; a status from 200 to 299 makes it return the bytes of the body at once; and
  an attempt is followed by another one exactly when it failed at the transport level or
  its status is below 200 or from 300 to 399.
\<close>

theorem attempt_outcomes:
  assumes "build_request w c ctx method endpoint data params = Inr req"
    and "\<And>j. j < k \<Longrightarrow> \<exists>e. handle_attempt w (Do w (httpClient c) req j) = Continue e"
    and "int k \<le> sint (MaxRetries (config c))"
    and "Do w (httpClient c) req k = Inr resp"
    and "Response_Body resp = Inr respBody"
  shows "(400 \<le>s StatusCode resp \<longrightarrow>
            makeRequest w c ctx method endpoint data params =
              Some (schedule c req 0 (Suc k),
                    Inl (NewResponseError (response_message w resp respBody)
                      (case json_Unmarshal w respBody of Inl err \<Rightarrow> None | Inr m \<Rightarrow> m)))) \<and>
         (200 \<le>s StatusCode resp \<and> StatusCode resp <s 300 \<longrightarrow>
            makeRequest w c ctx method endpoint data params =
              Some (schedule c req 0 (Suc k), Inr respBody)) \<and>
         attempts (schedule c req 0 (Suc k)) = Suc k \<and>
         kind_of_error (NewResponseError msg details) = Some ResponseKind \<and>
         ((\<exists>e. handle_attempt w r = Continue e) \<longleftrightarrow>
            transport_failure r \<or>
            (\<exists>resp'. r = Inr resp' \<and>
               (StatusCode resp' <s 200 \<or>
                300 \<le>s StatusCode resp' \<and> StatusCode resp' <s 400)))"
proof -
  have run: "retry_loop w c req (of_nat 0) None [] = Some ([] @ schedule c req 0 (Suc k), x)"
    if "handle_attempt w (Do w (httpClient c) req k) = Return x" for x
    by (rule loop_returns) (use assms that in simp_all)
  have "makeRequest w c ctx method endpoint data params =
          Some (schedule c req 0 (Suc k),
                Inl (NewResponseError (response_message w resp respBody)
                  (case json_Unmarshal w respBody of Inl err \<Rightarrow> None | Inr m \<Rightarrow> m)))"
    if "400 \<le>s StatusCode resp"
    using run [OF error_response [OF assms(5) that, of w, folded assms(4)]] assms(1)
    by (simp add: makeRequest_def)
  moreover have "makeRequest w c ctx method endpoint data params =
          Some (schedule c req 0 (Suc k), Inr respBody)"
    if "200 \<le>s StatusCode resp" "StatusCode resp <s 300"
    using run [OF success_response [OF assms(5) that, of w, folded assms(4)]] assms(1)
    by (simp add: makeRequest_def)
  ultimately show ?thesis
    using continue_iff [of w r] by (simp add: NewResponseError_def)
qed

theorem attempt_outcomes_witness:
  "makeRequest not_found (new_client (test_config 3)) Background ''GET'' ''/nodes/1'' go_nil
       Mapping.empty
     = Some ([Attempt (get_node_1 Background)],
             Inl (NewResponseError ''not found''
               (Some (Mapping.update ''message'' (go_string ''not found'') Mapping.empty)))) \<and>
   makeRequest switching (new_client (test_config 1)) Background ''GET'' ''/nodes/1'' go_nil
       Mapping.empty
     = Some (schedule (new_client (test_config 1)) (get_node_1 Background) 0 2, Inr ''{}'')"
proof -
  let ?resp = "\<lparr>StatusCode = 404, Response_Status = ''404 Not Found'',
                 Response_Body = Inr not_found_body\<rparr>"
  let ?ok = "\<lparr>StatusCode = 200, Response_Status = ''200 OK'', Response_Body = Inr ''{}''\<rparr>"
  have b: "build_request not_found (new_client (test_config 3)) Background ''GET'' ''/nodes/1''
      go_nil Mapping.empty = Inr (get_node_1 Background)"
    unfolding not_found_def by (rule build_get_node_1)
  have k: "int 0 \<le> sint (MaxRetries (config (new_client (test_config 3))))"
    by (simp add: new_client_def test_config_def)
  have d: "Do not_found (httpClient (new_client (test_config 3))) (get_node_1 Background) 0 = Inr ?resp"
    by (simp add: not_found_def server_def)
  have s: "400 \<le>s StatusCode ?resp" by (simp add: signed_order)
  have b': "build_request switching (new_client (test_config 1)) Background ''GET'' ''/nodes/1''
      go_nil Mapping.empty = Inr (get_node_1 Background)"
    unfolding switching_def by (rule build_get_node_1)
  have k': "int 1 \<le> sint (MaxRetries (config (new_client (test_config 1))))"
    by (simp add: new_client_def test_config_def)
  have d': "Do switching (httpClient (new_client (test_config 1))) (get_node_1 Background) 1 = Inr ?ok"
    by (simp add: switching_def server_def)
  have c': "\<exists>e. handle_attempt switching
      (Do switching (httpClient (new_client (test_config 1))) (get_node_1 Background) j) = Continue e"
    if "j < 1" for j
    using that by (simp add: switching_def server_def handle_attempt_def signed_order)
  have s': "200 \<le>s StatusCode ?ok \<and> StatusCode ?ok <s 300" by (simp add: signed_order)
  show ?thesis
    using attempt_outcomes [OF b _ k d, of not_found_body] s
      attempt_outcomes [OF b' c' k' d', of "''{}''"] s'
    by (simp add: response_message_def not_found_def server_def schedule_def attempt_events_def
        numeral_2_eq_2)
qed

lemma run_refusing_2:
  "makeRequest refusing (new_client (test_config 2)) Background ''GET'' ''/nodes/1'' go_nil
       Mapping.empty
     = Some ([Attempt (get_node_1 Background), Sleep 1000000000,
              Attempt (get_node_1 Background), Sleep 2000000000,
              Attempt (get_node_1 Background)],
             Inl (NewTimeoutError ''Request failed after all retries''
               (Some (Mapping.update ''error'' (go_string ''connection refused'')
                  Mapping.empty))))"
  unfolding makeRequest_def refusing_def build_get_node_1
  by (simp add: server_def new_client_def test_config_def retry_loop.simps handle_attempt_def
      backoff_def signed_order Second_def exhausted_def)

lemma schedule_3:
  "schedule (new_client (test_config 2)) req 0 3 =
     [Attempt req, Sleep 1000000000, Attempt req, Sleep 2000000000, Attempt req]"
  by (simp add: schedule_def attempt_events_def upt_rec new_client_def test_config_def Second_def)

lemma run_malformed:
  "makeRequest malformed (new_client (test_config 2)) Background ''GET'' ''/nodes/1'' go_nil
       Mapping.empty
     = Some ([], Inl (NewValidationError ''Failed to create request''
          (Some (Mapping.update ''error'' (go_string ''invalid URL escape'') Mapping.empty))))"
  by (simp add: makeRequest_def build_request_def NewRequestWithContext_def malformed_def
      server_def)

text \<open>
  C7, as stated: a call makes at most \<open>MaxRetries + 1\<close> attempts. With \<open>MaxRetries = -3\<close>
  the call makes no attempt, which is more than \<open>-2\<close>. With the largest \<open>MaxRetries\<close> and
  a server that never answers, the call goes from attempt to attempt and never returns.
\<close>

theorem backoff_counterexample:
  "makeRequest refusing (new_client (test_config (- 3))) Background ''GET'' ''/nodes/1'' go_nil
       Mapping.empty
     = Some ([], Inl (NewTimeoutError ''Request failed after all retries'' None)) \<and>
   \<not> int (attempts []) \<le> sint (MaxRetries (config (new_client (test_config (- 3))))) + 1 \<and>
   makeRequest refusing (new_client (test_config MaxInt)) (WithTimeout Background Second) ''GET''
       ''/nodes/1'' go_nil Mapping.empty
     = None"
proof -
  have "makeRequest refusing (new_client (test_config (- 3))) Background ''GET'' ''/nodes/1''
      go_nil Mapping.empty
     = Some ([], Inl (NewTimeoutError ''Request failed after all retries'' None))"
    unfolding makeRequest_def refusing_def build_get_node_1
    by (simp add: loop_not_entered new_client_def test_config_def exhausted_def signed_order)
  then show ?thesis
    using run_refusing_for_ever by (simp add: new_client_def test_config_def signed_order)
qed

text \<open>
  C7, amended: when \<open>MaxRetries\<close> is not the largest \<^verbatim>\<open>int\<close>, what a call of
  \<^verbatim>\<open>makeRequest\<close> has done when it returns is the schedule of its attempts: attempt 0
  with no sleep before
  it, and before each attempt \<open>k > 0\<close> one sleep of \<open>RetryDelay * k\<close>, the product taken in
  64 bits; the attempts are at most \<open>MaxRetries + 1\<close>, and none when \<open>MaxRetries\<close> is
  negative or the request cannot be built.
\<close>

theorem backoff_schedule:
  assumes "MaxRetries (config c) \<noteq> MaxInt"
  shows "(makeRequest w c ctx method endpoint data params = Some (tr, r) \<longrightarrow>
            int (attempts tr) \<le> max 0 (sint (MaxRetries (config c)) + 1) \<and>
            (isl (build_request w c ctx method endpoint data params) \<longrightarrow> tr = []) \<and>
            (build_request w c ctx method endpoint data params = Inr req \<longrightarrow>
               tr = schedule c req 0 (attempts tr))) \<and>
         attempt_events c req 0 = [Attempt req] \<and>
         (0 < k \<longrightarrow>
            attempt_events c req k = [Sleep (RetryDelay (config c) * of_nat k), Attempt req])"
  using makeRequest_trace [OF _ assms, of w ctx "method" "endpoint" data params tr r]
  by (auto simp: attempt_events_def)

theorem backoff_schedule_witness:
  "int (attempts [Attempt (get_node_1 Background), Sleep 1000000000,
              Attempt (get_node_1 Background), Sleep 2000000000,
              Attempt (get_node_1 Background)]) \<le> 3 \<and>
   [Attempt (get_node_1 Background), Sleep 1000000000,
    Attempt (get_node_1 Background), Sleep 2000000000, Attempt (get_node_1 Background)]
     = schedule (new_client (test_config 2)) (get_node_1 Background) 0 3 \<and>
   isl (build_request malformed (new_client (test_config 2)) Background ''GET'' ''/nodes/1''
      go_nil Mapping.empty) \<and>
   makeRequest malformed (new_client (test_config 2)) Background ''GET'' ''/nodes/1'' go_nil
       Mapping.empty
     = Some ([], Inl (NewValidationError ''Failed to create request''
          (Some (Mapping.update ''error'' (go_string ''invalid URL escape'') Mapping.empty))))"
proof -
  have m: "MaxRetries (config (new_client (test_config 2))) \<noteq> MaxInt"
    by (simp add: new_client_def test_config_def MaxInt_def)
  have b: "build_request refusing (new_client (test_config 2)) Background ''GET'' ''/nodes/1''
      go_nil Mapping.empty = Inr (get_node_1 Background)"
    unfolding refusing_def by (rule build_get_node_1)
  have b': "isl (build_request malformed (new_client (test_config 2)) Background ''GET''
      ''/nodes/1'' go_nil Mapping.empty)"
    by (simp add: build_request_def NewRequestWithContext_def malformed_def server_def)
  have n: "MaxRetries (config (new_client (test_config 2))) = 2"
    by (simp add: new_client_def test_config_def)
  show ?thesis
    using backoff_schedule [OF m, of refusing Background "''GET''" "''/nodes/1''" go_nil
        Mapping.empty
        "[Attempt (get_node_1 Background), Sleep 1000000000,
          Attempt (get_node_1 Background), Sleep 2000000000, Attempt (get_node_1 Background)]"
        "Inl (NewTimeoutError ''Request failed after all retries''
               (Some (Mapping.update ''error'' (go_string ''connection refused'')
                  Mapping.empty)))"
        "get_node_1 Background" 1]
      backoff_schedule [OF m, of malformed Background "''GET''" "''/nodes/1''" go_nil
        Mapping.empty "[]"
        "Inl (NewValidationError ''Failed to create request''
          (Some (Mapping.update ''error'' (go_string ''invalid URL escape'') Mapping.empty)))"]
      run_refusing_2 run_malformed b b' n
    by (simp add: numeral_3_eq_3)
qed

lemma one_attempt:
  assumes "MaxRetries (config c) = 0"
  shows "retry_loop w c req 0 None [] =
           Some ([Attempt req],
                 case handle_attempt w (Do w (httpClient c) req 0) of
                   Return x \<Rightarrow> x
                 | Continue err \<Rightarrow> Inl (exhausted (Some err)))"
proof (cases "handle_attempt w (Do w (httpClient c) req 0)")
  case (Return x)
  with assms show ?thesis
    by (subst retry_loop.simps) (simp add: backoff_def)
next
  case (Continue err)
  have "\<not> (0 + 1 :: go_int) \<le>s MaxRetries (config c)"
    using assms by (simp add: signed_order)
  then have "retry_loop w c req (0 + 1) (Some err) [Attempt req] =
      Some ([Attempt req], Inl (exhausted (Some err)))"
    by (rule loop_not_entered)
  with assms Continue show ?thesis
    by (subst retry_loop.simps) (simp add: backoff_def)
qed

lemma makeRequest_requests:
  assumes "makeRequest w c ctx method endpoint data params = Some (tr, r)"
    and "Attempt req \<in> set tr"
  shows "build_request w c ctx method endpoint data params = Inr req"
proof (cases "build_request w c ctx method endpoint data params")
  case (Inl err)
  with assms show ?thesis by (simp add: makeRequest_def)
next
  case (Inr req')
  with assms(1) have "retry_loop w c req' 0 None [] = Some (tr, r)"
    by (simp add: makeRequest_def)
  from loop_events [OF this, of "Attempt req"] assms(2) Inr show ?thesis by simp
qed

lemma makeRequest_sleeps:
  assumes "makeRequest w c ctx method endpoint data params = Some (tr, r)"
    and "Sleep d \<in> set tr"
  shows "\<exists>n. d = RetryDelay (config c) * n"
proof (cases "build_request w c ctx method endpoint data params")
  case (Inl err)
  with assms show ?thesis by (simp add: makeRequest_def)
next
  case (Inr req')
  with assms(1) have "retry_loop w c req' 0 None [] = Some (tr, r)"
    by (simp add: makeRequest_def)
  from loop_events [OF this, of "Sleep d"] assms(2) show ?thesis by simp
qed

lemma run_cli:
  "makeRequest refusing (new_client cli_config) Background ''GET'' ''/nodes/1'' go_nil
       Mapping.empty
     = Some ([Attempt (get_node_1 Background), Sleep 0, Attempt (get_node_1 Background)],
             Inl (NewTimeoutError ''Request failed after all retries''
               (Some (Mapping.update ''error'' (go_string ''connection refused'')
                  Mapping.empty))))"
proof -
  have "build_request refusing (new_client cli_config) Background ''GET'' ''/nodes/1''
      go_nil Mapping.empty = Inr (get_node_1 Background)"
    by (simp add: world_eval call_eval cli_config_def)
  then show ?thesis
    unfolding makeRequest_def
    by (simp add: refusing_def server_def new_client_def cli_config_def retry_loop.simps
        handle_attempt_def backoff_def signed_order exhausted_def)
qed

text \<open>
  C10. Only a nil configuration is replaced by the defaults. The client made from a
  configuration that is not nil holds that configuration as it is: with \<open>MaxRetries = 0\<close> a
  call whose request can be built makes exactly one attempt, with \<open>RetryDelay = 0\<close> every
  sleep of a call is of zero duration, and with \<open>Timeout = 0\<close> and no HTTP client given the
  HTTP client of the driver has the timeout zero, which is no timeout.
\<close>

theorem zero_fields_kept:
  "NewClient w None = NewClient w (Some DefaultConfig) \<and>
   (NewClient w (Some cfg) = Some (tr, Inr c) \<longrightarrow>
      config c = cfg \<and>
      (MaxRetries cfg = 0 \<and> build_request w' c ctx method endpoint data params = Inr req \<longrightarrow>
         makeRequest w' c ctx method endpoint data params =
           Some ([Attempt req],
                 case handle_attempt w' (Do w' (httpClient c) req 0) of
                   Return x \<Rightarrow> x
                 | Continue err \<Rightarrow> Inl (exhausted (Some err)))) \<and>
      (RetryDelay cfg = 0 \<and> makeRequest w' c ctx method endpoint data params = Some (tr', r') \<and>
       Sleep d \<in> set tr' \<longrightarrow> d = 0) \<and>
      (Timeout cfg = 0 \<and> HTTPClient cfg = None \<longrightarrow>
         httpClient c = \<lparr>Transport = None, Client_Timeout = 0\<rparr>))"
proof -
  have "c = new_client cfg" if "NewClient w (Some cfg) = Some (tr, Inr c)"
    using that by (auto simp: NewClient_def Let_def split: if_splits option.splits prod.splits)
  then show ?thesis
    using one_attempt [of c w' req]
      makeRequest_sleeps [of w' c ctx "method" "endpoint" data params tr' r' d]
    by (auto simp: NewClient_def new_client_def makeRequest_def)
qed

theorem zero_fields_kept_witness:
  "NewClient refusing (Some zero_config) = Some ([], Inr (new_client zero_config)) \<and>
   config (new_client zero_config) = zero_config \<and>
   makeRequest refusing (new_client zero_config) Background ''GET'' ''/nodes/1'' go_nil
       Mapping.empty
     = Some ([Attempt (get_node_1 Background)],
             Inl (NewTimeoutError ''Request failed after all retries''
               (Some (Mapping.update ''error'' (go_string ''connection refused'')
                  Mapping.empty)))) \<and>
   httpClient (new_client zero_config) = \<lparr>Transport = None, Client_Timeout = 0\<rparr> \<and>
   NewClient refusing (Some cli_config) = Some ([], Inr (new_client cli_config)) \<and>
   makeRequest refusing (new_client cli_config) Background ''GET'' ''/nodes/1'' go_nil
       Mapping.empty
     = Some ([Attempt (get_node_1 Background), Sleep 0, Attempt (get_node_1 Background)],
             Inl (NewTimeoutError ''Request failed after all retries''
               (Some (Mapping.update ''error'' (go_string ''connection refused'')
                  Mapping.empty)))) \<and>
   Sleep 0 \<in> set [Attempt (get_node_1 Background), Sleep 0, Attempt (get_node_1 Background)]"
proof -
  have n: "NewClient refusing (Some zero_config) = Some ([], Inr (new_client zero_config))"
    by (simp add: NewClient_def zero_config_def)
  have n': "NewClient refusing (Some cli_config) = Some ([], Inr (new_client cli_config))"
    by (simp add: NewClient_def cli_config_def)
  have b: "build_request refusing (new_client zero_config) Background ''GET'' ''/nodes/1''
      go_nil Mapping.empty = Inr (get_node_1 Background)"
    by (simp add: world_eval call_eval)
  have z: "MaxRetries zero_config = 0" "Timeout zero_config = 0" "HTTPClient zero_config = None"
    by (simp_all add: zero_config_def)
  have h: "handle_attempt refusing
      (Do refusing (httpClient (new_client zero_config)) (get_node_1 Background) 0)
      = Continue ''connection refused''"
    by (simp add: refusing_def server_def handle_attempt_def)
  from zero_fields_kept [of refusing zero_config "[]" "new_client zero_config" refusing
        Background "''GET''" "''/nodes/1''" go_nil Mapping.empty "get_node_1 Background"] n
  have kept: "config (new_client zero_config) = zero_config \<and>
      (MaxRetries zero_config = 0 \<and>
       build_request refusing (new_client zero_config) Background ''GET'' ''/nodes/1'' go_nil
         Mapping.empty = Inr (get_node_1 Background) \<longrightarrow>
       makeRequest refusing (new_client zero_config) Background ''GET'' ''/nodes/1'' go_nil
         Mapping.empty =
       Some ([Attempt (get_node_1 Background)],
             case handle_attempt refusing
                    (Do refusing (httpClient (new_client zero_config)) (get_node_1 Background) 0) of
               Return x \<Rightarrow> x
             | Continue err \<Rightarrow> Inl (exhausted (Some err)))) \<and>
      (Timeout zero_config = 0 \<and> HTTPClient zero_config = None \<longrightarrow>
         httpClient (new_client zero_config) = \<lparr>Transport = None, Client_Timeout = 0\<rparr>)"
    by blast
  with z b h have one: "config (new_client zero_config) = zero_config"
    "makeRequest refusing (new_client zero_config) Background ''GET'' ''/nodes/1'' go_nil
       Mapping.empty
     = Some ([Attempt (get_node_1 Background)],
             Inl (NewTimeoutError ''Request failed after all retries''
               (Some (Mapping.update ''error'' (go_string ''connection refused'')
                  Mapping.empty))))"
    "httpClient (new_client zero_config) = \<lparr>Transport = None, Client_Timeout = 0\<rparr>"
    by (simp_all add: exhausted_def)
  from zero_fields_kept [of refusing cli_config "[]" "new_client cli_config" refusing
        Background "''GET''" "''/nodes/1''" go_nil Mapping.empty "get_node_1 Background"
        "[Attempt (get_node_1 Background), Sleep 0, Attempt (get_node_1 Background)]"
        "Inl (NewTimeoutError ''Request failed after all retries''
               (Some (Mapping.update ''error'' (go_string ''connection refused'')
                  Mapping.empty)))"
        0] n'
  have "config (new_client cli_config) = cli_config"
    by blast
  then show ?thesis
    using n n' one run_cli by simp
qed

lemma build_probe_request:
  "build_request w (new_client cfg) (WithTimeout Background (Timeout cfg)) ''GET'' ''/health''
     go_nil Mapping.empty =
     (case NewRequest_error w (WithTimeout Background (Timeout cfg)) ''GET''
             (TrimRight (BaseURL cfg) ''/'' @ ''/health'') of
        Some err \<Rightarrow>
          Inl (NewValidationError ''Failed to create request''
            (Some (Mapping.update ''error'' (go_string err) Mapping.empty)))
      | None \<Rightarrow> Inr (probe_request cfg))"
  by (simp add: build_request_def NewRequestWithContext_def new_client_def probe_request_def
      split: option.splits)

text \<open>
  C6, as stated: without \<open>SkipValidation\<close> and with no server at the address,
  \<^verbatim>\<open>NewClient\<close> performs a health probe and returns a connection error that wraps the
  cause. With a negative \<open>MaxRetries\<close> no request is sent, and the error wraps no cause of
  the network. With the largest \<open>MaxRetries\<close> the probe retries for ever and \<^verbatim>\<open>NewClient\<close>
  does not return.
\<close>

theorem startup_probe_counterexample:
  "NewClient refusing (Some (test_config (- 1))) =
     Some ([], Inl (NewConnectionError ''Failed to connect to NenDB server at http://localhost:9999''
             (Some (Mapping.update ''error'' (go_string ''Request failed after all retries'')
                Mapping.empty)))) \<and>
   NewClient refusing (Some (test_config MaxInt)) = None"
proof -
  have "build_request refusing (new_client (test_config MaxInt))
      (WithTimeout Background (Timeout (config (new_client (test_config MaxInt)))))
      ''GET'' ''/health'' go_nil Mapping.empty = Inr health_request"
    by (simp add: world_eval call_eval)
  moreover have "retry_loop refusing (new_client (test_config MaxInt)) health_request 0 None [] = None"
    using transport_failure_continues [OF refusing_fails]
    by (simp add: loop_never_returns new_client_def test_config_def)
  ultimately have never: "NewClient refusing (Some (test_config MaxInt)) = None"
    by (simp add: NewClient_def Health_def makeRequest_def test_config_def)
  have "build_request refusing (new_client (test_config (- 1)))
      (WithTimeout Background (Timeout (config (new_client (test_config (- 1))))))
      ''GET'' ''/health'' go_nil Mapping.empty = Inr health_request"
    by (simp add: world_eval call_eval)
  moreover have "retry_loop refusing (new_client (test_config (- 1))) health_request 0 None [] =
      Some ([], Inl (exhausted None))"
    by (simp add: loop_not_entered new_client_def test_config_def signed_order)
  ultimately have "NewClient refusing (Some (test_config (- 1))) =
     Some ([], Inl (NewConnectionError ''Failed to connect to NenDB server at http://localhost:9999''
             (Some (Mapping.update ''error'' (go_string ''Request failed after all retries'')
                Mapping.empty))))"
    by (simp add: NewClient_def Health_def makeRequest_def test_config_def exhausted_def
        NewTimeoutError_def New_def NenDBError_Error_def new_client_def TrimRight_def)
  with never show ?thesis by simp
qed

text \<open>
  C6, amended: with \<open>SkipValidation\<close>, \<^verbatim>\<open>NewClient\<close> returns the client and does nothing
  else, whatever the server. Without it, when the request of the probe can be made,
  \<open>MaxRetries\<close> is not the largest \<^verbatim>\<open>int\<close> and every attempt of the probe fails at the
  transport level, \<^verbatim>\<open>NewClient\<close> sends exactly \<open>MaxRetries + 1\<close> times, and not at all when
  \<open>MaxRetries\<close> is negative, a \<^verbatim>\<open>GET\<close> of \<^verbatim>\<open>/health\<close> below the stored base address, with
  the sleeps of the schedule between, and returns no client and a connection error whose
  detail \<^verbatim>\<open>error\<close> is the text of the timeout error of the probe. When the request of the
  probe cannot be made, nothing is sent and the connection error holds the text of the
  validation error.
\<close>

theorem startup_probe:
  "(SkipValidation cfg \<longrightarrow> NewClient w (Some cfg) = Some ([], Inr (new_client cfg))) \<and>
   (\<not> SkipValidation cfg \<and> MaxRetries cfg \<noteq> MaxInt \<and>
    NewRequest_error w (WithTimeout Background (Timeout cfg)) ''GET''
      (TrimRight (BaseURL cfg) ''/'' @ ''/health'') = None \<and>
    (\<forall>k. transport_failure (Do w (httpClient (new_client cfg)) (probe_request cfg) k)) \<longrightarrow>
      NewClient w (Some cfg) =
        Some (schedule (new_client cfg) (probe_request cfg) 0 (nat (sint (MaxRetries cfg) + 1)),
              Inl (NewConnectionError
                (''Failed to connect to NenDB server at '' @ TrimRight (BaseURL cfg) ''/'')
                (Some (Mapping.update ''error''
                   (go_string (Error w
                      (NewTimeoutError ''Request failed after all retries''
                         (if 0 \<le>s MaxRetries cfg
                          then Some (Mapping.update ''error''
                                 (go_string (transport_error
                                    (Do w (httpClient (new_client cfg)) (probe_request cfg)
                                       (nat (sint (MaxRetries cfg))))))
                                 Mapping.empty)
                          else None))))
                   Mapping.empty)))) \<and>
      int (attempts (schedule (new_client cfg) (probe_request cfg) 0
             (nat (sint (MaxRetries cfg) + 1)))) = max 0 (sint (MaxRetries cfg) + 1)) \<and>
   (\<not> SkipValidation cfg \<and>
    NewRequest_error w (WithTimeout Background (Timeout cfg)) ''GET''
      (TrimRight (BaseURL cfg) ''/'' @ ''/health'') = Some e \<longrightarrow>
      NewClient w (Some cfg) =
        Some ([],
              Inl (NewConnectionError
                (''Failed to connect to NenDB server at '' @ TrimRight (BaseURL cfg) ''/'')
                (Some (Mapping.update ''error''
                   (go_string (Error w
                      (NewValidationError ''Failed to create request''
                         (Some (Mapping.update ''error'' (go_string e) Mapping.empty)))))
                   Mapping.empty))))) \<and>
   Method (probe_request cfg) = ''GET'' \<and>
   URL (probe_request cfg) = baseURL (new_client cfg) @ ''/health'' \<and>
   kind_of_error (NewConnectionError msg details) = Some ConnectionKind"
proof -
  let ?c = "new_client cfg"
  let ?ctx = "WithTimeout Background (Timeout cfg)"
  have unreachable: "NewClient w (Some cfg) =
        Some (schedule ?c (probe_request cfg) 0 (nat (sint (MaxRetries cfg) + 1)),
              Inl (NewConnectionError
                (''Failed to connect to NenDB server at '' @ TrimRight (BaseURL cfg) ''/'')
                (Some (Mapping.update ''error''
                   (go_string (Error w
                      (NewTimeoutError ''Request failed after all retries''
                         (if 0 \<le>s MaxRetries cfg
                          then Some (Mapping.update ''error''
                                 (go_string (transport_error
                                    (Do w (httpClient ?c) (probe_request cfg)
                                       (nat (sint (MaxRetries cfg))))))
                                 Mapping.empty)
                          else None))))
                   Mapping.empty)))) \<and>
      int (attempts (schedule ?c (probe_request cfg) 0
             (nat (sint (MaxRetries cfg) + 1)))) = max 0 (sint (MaxRetries cfg) + 1)"
    if "\<not> SkipValidation cfg" "MaxRetries cfg \<noteq> MaxInt"
      "NewRequest_error w ?ctx ''GET'' (TrimRight (BaseURL cfg) ''/'' @ ''/health'') = None"
      "\<forall>k. transport_failure (Do w (httpClient ?c) (probe_request cfg) k)"
  proof -
    have c: "config ?c = cfg" "baseURL ?c = TrimRight (BaseURL cfg) ''/''"
      by (simp_all add: new_client_def)
    have b: "build_request w ?c (WithTimeout Background (Timeout (config ?c))) ''GET''
        ''/health'' go_nil Mapping.empty = Inr (probe_request cfg)"
      unfolding c using that(3) by (simp add: build_probe_request)
    have f: "transport_failure (Do w (httpClient ?c) (probe_request cfg) k)" for k
      using that(4) by simp
    have m: "MaxRetries (config ?c) \<noteq> MaxInt"
      using that(2) by (simp add: c)
    from all_fail_run [OF b f m] that(1) show ?thesis
      unfolding c by (simp add: NewClient_def Health_def c Let_def)
  qed
  have invalid: "NewClient w (Some cfg) =
        Some ([],
              Inl (NewConnectionError
                (''Failed to connect to NenDB server at '' @ TrimRight (BaseURL cfg) ''/'')
                (Some (Mapping.update ''error''
                   (go_string (Error w
                      (NewValidationError ''Failed to create request''
                         (Some (Mapping.update ''error'' (go_string e) Mapping.empty)))))
                   Mapping.empty))))"
    if "\<not> SkipValidation cfg"
      "NewRequest_error w ?ctx ''GET'' (TrimRight (BaseURL cfg) ''/'' @ ''/health'') = Some e"
  proof -
    have c: "config ?c = cfg" "baseURL ?c = TrimRight (BaseURL cfg) ''/''"
      by (simp_all add: new_client_def)
    have "build_request w ?c (WithTimeout Background (Timeout (config ?c))) ''GET''
        ''/health'' go_nil Mapping.empty =
        Inl (NewValidationError ''Failed to create request''
               (Some (Mapping.update ''error'' (go_string e) Mapping.empty)))"
      unfolding c using that(2) by (simp add: build_probe_request)
    with that(1) show ?thesis
      by (simp add: NewClient_def Health_def makeRequest_def c Let_def)
  qed
  have "Method (probe_request cfg) = ''GET''"
    "URL (probe_request cfg) = baseURL ?c @ ''/health''"
    by (simp_all add: probe_request_def new_client_def)
  moreover have "kind_of_error (NewConnectionError msg details) = Some ConnectionKind"
    by (simp add: NewConnectionError_def)
  moreover have "SkipValidation cfg \<longrightarrow> NewClient w (Some cfg) = Some ([], Inr ?c)"
    by (simp add: NewClient_def)
  ultimately show ?thesis using unreachable invalid by blast
qed

theorem startup_probe_witness:
  "NewClient refusing (Some (test_config 1)) =
     Some ([Attempt health_request, Sleep 1000000000, Attempt health_request],
           Inl (NewConnectionError ''Failed to connect to NenDB server at http://localhost:9999''
             (Some (Mapping.update ''error''
                (go_string ''Request failed after all retries - Details: map[error:connection refused]'')
                Mapping.empty)))) \<and>
   int (attempts [Attempt health_request, Sleep 1000000000, Attempt health_request]) = 2 \<and>
   Method health_request = ''GET'' \<and>
   URL health_request = ''http://localhost:9999/health'' \<and>
   NewClient malformed (Some (test_config 1)) =
     Some ([],
           Inl (NewConnectionError ''Failed to connect to NenDB server at http://localhost:9999''
             (Some (Mapping.update ''error''
                (go_string ''Failed to create request - Details: map[error:invalid URL escape]'')
                Mapping.empty)))) \<and>
   NewClient refusing (Some zero_config) = Some ([], Inr (new_client zero_config))"
proof -
  have m: "MaxRetries (test_config 1) \<noteq> MaxInt" "\<not> SkipValidation (test_config 1)"
    "SkipValidation zero_config" "0 \<le>s MaxRetries (test_config 1)"
    "nat (sint (MaxRetries (test_config 1)) + 1) = 2"
    by (simp_all add: test_config_def zero_config_def MaxInt_def signed_order)
  have p: "probe_request (test_config 1) = health_request"
    by (simp add: probe_request_def health_request_def test_config_def TrimRight_def)
  have t: "TrimRight (BaseURL (test_config 1)) ''/'' = ''http://localhost:9999''"
    by (simp add: test_config_def TrimRight_def)
  have s: "schedule (new_client (test_config 1)) health_request 0 2 =
      [Attempt health_request, Sleep 1000000000, Attempt health_request]"
    by (simp add: schedule_def attempt_events_def upt_rec new_client_def test_config_def
        Second_def)
  have r: "NewRequest_error refusing ctx ''GET'' u = None"
    "NewRequest_error malformed ctx ''GET'' u = Some ''invalid URL escape''" for ctx u
    by (simp_all add: refusing_def malformed_def server_def)
  have d: "transport_error (Do refusing hc req k) = ''connection refused''" for hc req k
    by (simp add: refusing_def server_def transport_error_def)
  have e: "Error refusing (NewTimeoutError ''Request failed after all retries''
               (Some (Mapping.update ''error'' (go_string ''connection refused'')
                  Mapping.empty)))
       = ''Request failed after all retries - Details: map[error:connection refused]''"
    "Error malformed (NewValidationError ''Failed to create request''
               (Some (Mapping.update ''error'' (go_string ''invalid URL escape'')
                  Mapping.empty)))
       = ''Failed to create request - Details: map[error:invalid URL escape]''"
    by (simp_all add: NewTimeoutError_def NewValidationError_def New_def NenDBError_Error_def
        refusing_def malformed_def server_def)
  from startup_probe [of "test_config 1" refusing] m r(1) refusing_fails
  have unreachable: "NewClient refusing (Some (test_config 1)) =
     Some ([Attempt health_request, Sleep 1000000000, Attempt health_request],
           Inl (NewConnectionError ''Failed to connect to NenDB server at http://localhost:9999''
             (Some (Mapping.update ''error''
                (go_string ''Request failed after all retries - Details: map[error:connection refused]'')
                Mapping.empty))))"
    and count: "int (attempts [Attempt health_request, Sleep 1000000000, Attempt health_request]) = 2"
    and request: "Method health_request = ''GET''"
      "URL health_request = baseURL (new_client (test_config 1)) @ ''/health''"
    by (simp_all add: p t s d e)
  from startup_probe [of "test_config 1" malformed "''invalid URL escape''"] m r(2)
  have invalid: "NewClient malformed (Some (test_config 1)) =
     Some ([],
           Inl (NewConnectionError ''Failed to connect to NenDB server at http://localhost:9999''
             (Some (Mapping.update ''error''
                (go_string ''Failed to create request - Details: map[error:invalid URL escape]'')
                Mapping.empty))))"
    by (simp add: t e)
  from startup_probe [of zero_config refusing] m(3)
  have skipped: "NewClient refusing (Some zero_config) = Some ([], Inr (new_client zero_config))"
    by simp
  from unreachable count request invalid skipped show ?thesis
    by (simp add: new_client_def t)
qed

lemma TrimRight_decompose:
  "\<exists>n. s = TrimRight s [c] @ replicate n c"
proof -
  let ?P = "\<lambda>x. x = c"
  have "rev (takeWhile ?P (rev s) @ dropWhile ?P (rev s)) = s"
    by simp
  then have split: "rev (dropWhile ?P (rev s)) @ rev (takeWhile ?P (rev s)) = s"
    unfolding rev_append .
  have "takeWhile ?P (rev s) = replicate (length (takeWhile ?P (rev s))) c"
    by (rule replicate_length_same [symmetric]) (auto dest: set_takeWhileD)
  then have "rev (takeWhile ?P (rev s)) = replicate (length (takeWhile ?P (rev s))) c"
    by (metis rev_replicate)
  with split have "s = TrimRight s [c] @ replicate (length (takeWhile ?P (rev s))) c"
    by (simp add: TrimRight_def)
  then show ?thesis ..
qed

lemma TrimRight_last:
  "TrimRight s [c] = [] \<or> last (TrimRight s [c]) \<noteq> c"
proof (cases "dropWhile (\<lambda>x. x = c) (rev s)")
  case Nil
  then show ?thesis by (simp add: TrimRight_def)
next
  case (Cons y ys)
  then have "y \<noteq> c"
    using hd_dropWhile [of "\<lambda>x. x = c" "rev s"] by auto
  with Cons show ?thesis by (simp add: TrimRight_def)
qed

lemma NewClient_client:
  "NewClient w config' = Some (tr, Inr c) \<Longrightarrow>
     c = new_client (case config' of None \<Rightarrow> DefaultConfig | Some cfg \<Rightarrow> cfg)"
  by (auto simp: NewClient_def Let_def split: if_splits option.splits prod.splits)

text \<open>
  C9. The base address of a client that \<^verbatim>\<open>NewClient\<close> returns is the configured one
  without its trailing \<^verbatim>\<open>/\<close> characters: the configured address is the stored one followed
  by \<^verbatim>\<open>/\<close> characters only, and the stored one does not end in \<^verbatim>\<open>/\<close>. No method assigns to
  a field of the client, so a call takes the client and gives none back; every request of a
  call without query parameters goes to the stored base address followed by the endpoint.
\<close>

theorem base_address_trimmed:
  "NewClient w config' = Some (tr, Inr c) \<longrightarrow>
     baseURL c =
       TrimRight (BaseURL (case config' of None \<Rightarrow> DefaultConfig | Some cfg \<Rightarrow> cfg)) ''/'' \<and>
     (\<exists>n. BaseURL (case config' of None \<Rightarrow> DefaultConfig | Some cfg \<Rightarrow> cfg) =
            baseURL c @ replicate n CHR ''/'') \<and>
     (baseURL c = [] \<or> last (baseURL c) \<noteq> CHR ''/'') \<and>
     (makeRequest w' c ctx method endpoint data Mapping.empty = Some (tr', r') \<and>
      Attempt req \<in> set tr' \<longrightarrow> URL req = baseURL c @ endpoint)"
proof
  assume "NewClient w config' = Some (tr, Inr c)"
  then have c: "baseURL c =
       TrimRight (BaseURL (case config' of None \<Rightarrow> DefaultConfig | Some cfg \<Rightarrow> cfg)) ''/''"
    using NewClient_client [of w config' tr c] by (simp add: new_client_def)
  have "URL req = baseURL c @ endpoint"
    if "makeRequest w' c ctx method endpoint data Mapping.empty = Some (tr', r')"
      "Attempt req \<in> set tr'"
    using build_request_fields [OF makeRequest_requests [OF that]] by simp
  then show "baseURL c =
       TrimRight (BaseURL (case config' of None \<Rightarrow> DefaultConfig | Some cfg \<Rightarrow> cfg)) ''/'' \<and>
     (\<exists>n. BaseURL (case config' of None \<Rightarrow> DefaultConfig | Some cfg \<Rightarrow> cfg) =
            baseURL c @ replicate n CHR ''/'') \<and>
     (baseURL c = [] \<or> last (baseURL c) \<noteq> CHR ''/'') \<and>
     (makeRequest w' c ctx method endpoint data Mapping.empty = Some (tr', r') \<and>
      Attempt req \<in> set tr' \<longrightarrow> URL req = baseURL c @ endpoint)"
    using c TrimRight_decompose [of "BaseURL (case config' of None \<Rightarrow> DefaultConfig | Some cfg \<Rightarrow> cfg)" "CHR ''/''"]
      TrimRight_last [of "BaseURL (case config' of None \<Rightarrow> DefaultConfig | Some cfg \<Rightarrow> cfg)" "CHR ''/''"]
    by simp
qed

theorem base_address_trimmed_witness:
  "NewClient refusing (Some slash_config) = Some ([], Inr (new_client slash_config)) \<and>
   baseURL (new_client slash_config) = ''http://localhost:8080'' \<and>
   makeRequest refusing (new_client slash_config) Background ''GET'' ''/nodes/1'' go_nil
       Mapping.empty
     = Some ([Attempt ((get_node_1 Background)\<lparr>URL := ''http://localhost:8080/nodes/1''\<rparr>)],
             Inl (NewTimeoutError ''Request failed after all retries''
               (Some (Mapping.update ''error'' (go_string ''connection refused'')
                  Mapping.empty)))) \<and>
   URL ((get_node_1 Background)\<lparr>URL := ''http://localhost:8080/nodes/1''\<rparr>)
     = baseURL (new_client slash_config) @ ''/nodes/1''"
proof -
  let ?req = "(get_node_1 Background)\<lparr>URL := ''http://localhost:8080/nodes/1''\<rparr>"
  let ?r = "Inl (NewTimeoutError ''Request failed after all retries''
               (Some (Mapping.update ''error'' (go_string ''connection refused'')
                  Mapping.empty))) :: go_error + bytes"
  have n: "NewClient refusing (Some slash_config) = Some ([], Inr (new_client slash_config))"
    by (simp add: NewClient_def slash_config_def)
  have t: "TrimRight (BaseURL slash_config) ''/'' = ''http://localhost:8080''"
    by (simp add: slash_config_def TrimRight_def)
  have b: "build_request refusing (new_client slash_config) Background ''GET'' ''/nodes/1''
      go_nil Mapping.empty = Inr ?req"
    by (simp add: world_eval call_eval)
  have m: "makeRequest refusing (new_client slash_config) Background ''GET'' ''/nodes/1'' go_nil
       Mapping.empty = Some ([Attempt ?req], ?r)"
    unfolding makeRequest_def b
    by (simp add: refusing_def server_def new_client_def slash_config_def retry_loop.simps
        handle_attempt_def backoff_def signed_order exhausted_def)
  from base_address_trimmed [of refusing "Some slash_config" "[]" "new_client slash_config"
        refusing Background "''GET''" "''/nodes/1''" go_nil "[Attempt ?req]" ?r ?req] n
  have stored: "baseURL (new_client slash_config) = TrimRight (BaseURL slash_config) ''/''"
    and sent: "makeRequest refusing (new_client slash_config) Background ''GET'' ''/nodes/1''
        go_nil Mapping.empty = Some ([Attempt ?req], ?r) \<and> Attempt ?req \<in> set [Attempt ?req]
      \<longrightarrow> URL ?req = baseURL (new_client slash_config) @ ''/nodes/1''"
    by simp_all
  from sent m have "URL ?req = baseURL (new_client slash_config) @ ''/nodes/1''"
    by simp
  then show ?thesis
    using n m stored t by simp
qed

text \<open>
  C3. The specification asks that the context of the caller governs every point where a
  call waits, the sleep between two attempts included. The sleep of \<^verbatim>\<open>makeRequest\<close> is
  \<^verbatim>\<open>time.Sleep\<close>, which takes no context: when the context is done before the call and
  every attempt fails at the transport level, as it does at once for that reason in
  \<^verbatim>\<open>net/http\<close>, a call with at least one retry and a positive retry delay still makes
  every attempt of its schedule, under that context, and sleeps before each retry, the
  first time for the whole retry delay; only then it returns its timeout error. No sleep
  of the call ends for the context. (\<^verbatim>\<open>Health\<close> has no context parameter at all.)
\<close>

theorem uninterrupted_sleep:
  assumes "build_request w c ctx method endpoint data params = Inr req"
    and "\<And>k. transport_failure (Do w (httpClient c) req k)"
    and "0 <s MaxRetries (config c)" and "MaxRetries (config c) \<noteq> MaxInt"
    and "0 <s RetryDelay (config c)"
    and "ctx_done ctx"
  shows "Ctx req = ctx \<and>
         makeRequest w c ctx method endpoint data params =
           Some (schedule c req 0 (nat (sint (MaxRetries (config c)) + 1)),
                 Inl (NewTimeoutError ''Request failed after all retries''
                   (Some (Mapping.update ''error''
                      (go_string (transport_error
                         (Do w (httpClient c) req (nat (sint (MaxRetries (config c)))))))
                      Mapping.empty)))) \<and>
         Sleep (RetryDelay (config c))
           \<in> set (schedule c req 0 (nat (sint (MaxRetries (config c)) + 1))) \<and>
         \<not> sleeps_abort ctx (schedule c req 0 (nat (sint (MaxRetries (config c)) + 1)))"
proof -
  have n: "0 \<le>s MaxRetries (config c)"
    using assms(3) by (simp add: word_sle_eq word_sless_alt)
  have s: "Sleep (RetryDelay (config c))
      \<in> set (schedule c req 0 (nat (sint (MaxRetries (config c)) + 1)))"
    using assms(3,4) by (rule schedule_sleeps)
  then have "\<not> sleeps_abort ctx (schedule c req 0 (nat (sint (MaxRetries (config c)) + 1)))"
    using assms(5,6)
    by (auto simp: sleeps_abort_def list_all_iff intro!: bexI [of _ "Sleep (RetryDelay (config c))"])
  then show ?thesis
    using all_fail_run [OF assms(1,2,4)] n s build_request_fields [OF assms(1)] by simp
qed

theorem uninterrupted_sleep_witness:
  "ctx_done (WithCancel Background True) \<and>
   Ctx (get_node_1 (WithCancel Background True)) = WithCancel Background True \<and>
   makeRequest cancellable (new_client (test_config 2)) (WithCancel Background True) ''GET''
       ''/nodes/1'' go_nil Mapping.empty
     = Some ([Attempt (get_node_1 (WithCancel Background True)), Sleep 1000000000,
              Attempt (get_node_1 (WithCancel Background True)), Sleep 2000000000,
              Attempt (get_node_1 (WithCancel Background True))],
             Inl (NewTimeoutError ''Request failed after all retries''
               (Some (Mapping.update ''error'' (go_string ''context canceled'')
                  Mapping.empty)))) \<and>
   \<not> sleeps_abort (WithCancel Background True)
       [Attempt (get_node_1 (WithCancel Background True)), Sleep 1000000000,
        Attempt (get_node_1 (WithCancel Background True)), Sleep 2000000000,
        Attempt (get_node_1 (WithCancel Background True))]"
proof -
  let ?ctx = "WithCancel Background True"
  have b: "build_request cancellable (new_client (test_config 2)) ?ctx ''GET'' ''/nodes/1''
      go_nil Mapping.empty = Inr (get_node_1 ?ctx)"
    by (simp add: world_eval call_eval)
  have f: "transport_failure
      (Do cancellable (httpClient (new_client (test_config 2))) (get_node_1 ?ctx) k)" for k
    by (simp add: cancellable_def server_def transport_failure_def get_node_1_def)
  have e: "transport_error
      (Do cancellable (httpClient (new_client (test_config 2))) (get_node_1 ?ctx) k)
      = ''context canceled''" for k
    by (simp add: cancellable_def server_def transport_error_def get_node_1_def)
  have m: "0 <s MaxRetries (config (new_client (test_config 2)))"
    "MaxRetries (config (new_client (test_config 2))) \<noteq> MaxInt"
    "0 <s RetryDelay (config (new_client (test_config 2)))"
    "ctx_done ?ctx"
    by (simp_all add: new_client_def test_config_def MaxInt_def Second_def signed_order)
  have n: "nat (sint (MaxRetries (config (new_client (test_config 2)))) + 1) = 3"
    by (simp add: new_client_def test_config_def)
  show ?thesis
    using uninterrupted_sleep [OF b f m] e n schedule_3 [of "get_node_1 ?ctx"]
    by simp
qed

end
